theory Spec2Isabelle
  imports Complex_Main "HOL-Library.Char_ord" "HOL-Library.List_Lexorder" "HOL-Library.Sublist"
    "HOL-Library.Log_Nat"
begin

section \<open>Name sanitizer\<close>

text \<open>
  Python strings are modelled as \<open>string\<close>; a character is one code point below 256
  (Latin-1). \<open>str.lower\<close> maps the upper-case letters of that range to their lower-case
  partners and leaves every other character as it is.
\<close>

definition lower_char :: "char \<Rightarrow> char" where
  "lower_char c =
     (let n = (of_char c :: nat)
      in if (65 \<le> n \<and> n \<le> 90) \<or> (192 \<le> n \<and> n \<le> 222 \<and> n \<noteq> 215)
         then char_of (n + 32) else c)"

definition lower :: "string \<Rightarrow> string" where
  "lower s = map lower_char s"

text \<open>\<open>s.replace(a, b)\<close> for one-character strings \<open>a\<close> and \<open>b\<close>.\<close>

definition replace_char :: "char \<Rightarrow> char \<Rightarrow> string \<Rightarrow> string" where
  "replace_char a b s = map (\<lambda>c. if c = a then b else c) s"

text \<open>The character class \<open>[a-z0-9]\<close>.\<close>

definition alnum :: "char \<Rightarrow> bool" where
  "alnum c =
     (let n = (of_char c :: nat)
      in (97 \<le> n \<and> n \<le> 122) \<or> (48 \<le> n \<and> n \<le> 57))"

text \<open>The character class \<open>[a-z0-9.-]\<close>.\<close>

definition allowed :: "char \<Rightarrow> bool" where
  "allowed c = (alnum c \<or> c = CHR ''.'' \<or> c = CHR ''-'')"

text \<open>\<open>re.sub(r"[c]+", "c", s)\<close>: every run of the character \<open>c\<close> becomes one \<open>c\<close>.\<close>

fun collapse :: "char \<Rightarrow> string \<Rightarrow> string" where
  "collapse c [] = []"
| "collapse c [x] = [x]"
| "collapse c (x # y # s) =
     (if x = c \<and> y = c then collapse c (y # s) else x # collapse c (y # s))"

text \<open>\<open>s.strip(".-")\<close>.\<close>

definition strip_dot_hyphen :: "string \<Rightarrow> string" where
  "strip_dot_hyphen s =
     (let p = (\<lambda>c. c = CHR ''.'' \<or> c = CHR ''-'')
      in rev (dropWhile p (rev (dropWhile p s))))"

text \<open>
  \<open>re.match(r"^[a-z0-9]", s)\<close>: \<open>re.match\<close> matches at the start of the string, so
  the pattern asks for a first character in the class.
\<close>

fun match_alnum_start :: "string \<Rightarrow> bool" where
  "match_alnum_start [] = False"
| "match_alnum_start (c # s) = alnum c"

text \<open>
  \<open>re.match(r"[a-z0-9]$", s)\<close>: \<open>re.match\<close> matches at the start of the string here
  too, so the pattern asks for a first character in the class that is followed by the end
  of the string (\<open>$\<close> also matches before one final newline).
\<close>

fun match_alnum_end :: "string \<Rightarrow> bool" where
  "match_alnum_end [c] = alnum c"
| "match_alnum_end [c, d] = (alnum c \<and> d = CHR 0x0A)"
| "match_alnum_end s = False"

definition sanitize_name :: "string \<Rightarrow> string" where
  "sanitize_name name0 =
     (let name = lower name0;
          name = replace_char (CHR '' '') (CHR ''-'') (replace_char (CHR ''_'') (CHR ''-'') name);
          name = filter allowed name;
          name = collapse (CHR ''-'') name;
          name = collapse (CHR ''.'') name;
          name = strip_dot_hyphen name;
          name = (if length name > 0 \<and> \<not> match_alnum_start name then ''a'' @ name else name);
          name = (if length name > 0 \<and> \<not> match_alnum_end name then name @ ''z'' else name)
      in name)"

section \<open>Exceptions, events and the world\<close>

text \<open>A Python exception, with the text that \<open>str(e)\<close> gives for it.\<close>

datatype exc = Exc string

text \<open>
  The four printing functions (\<open>print_step\<close>, \<open>print_success\<close>, \<open>print_warning\<close>,
  \<open>print_error\<close>), each with a mark of its own in front of the message, and the messages
  that the upload and the counter update print, with the values they show.
\<close>

datatype printer = PrintStep | PrintSuccess | PrintWarning | PrintError

datatype message =
    StartingUpload string
  | OutputDirNotFound string
  | BucketCheckFailed exc
  | NoFilesFound string string
  | FoundFiles nat string
  | Progress nat nat string
  | UploadedFiles nat nat string
  | PartialUpload string
  | NothingUploaded string
  | UploadException string exc
  | AnalyticsUpdated int int
  | AnalyticsFailed exc

text \<open>
  A file system node. A directory holds its entries in the order in which the operating
  system lists them (\<open>os.scandir\<close>); file contents are not modelled.
\<close>

datatype fsnode = File | Dir "(string \<times> fsnode) list"

fun is_dir :: "fsnode \<Rightarrow> bool" where
  "is_dir File = False"
| "is_dir (Dir es) = True"

text \<open>
  The calls to the outside world and the log lines that the properties below speak about,
  in the order in which the run makes them.
\<close>

datatype event =
    UploadStart string
  | BucketExists
  | MakeBucket
  | FPut string string
  | RetryWarning nat string
  | Sleep nat
  | UploadError string
  | Rmtree string
  | RecordCounts int int
  | AnalyticsError
  | SetSignal bool

text \<open>
  The state outside the process: the output root directory (\<open>None\<close> when the path does
  not exist), the object store (whether the bucket exists, the keys stored in it, the
  number of \<open>fput_object\<close> calls made so far), the analytics document, the signal file
  and the events so far.
\<close>

record world =
  output_root :: "fsnode option"
  bucket_present :: bool
  objects :: "string list"
  fput_calls :: nat
  analytics :: "(int \<times> int) option"
  signal_file :: bool
  trace :: "event list"

text \<open>
  What the run cannot decide by itself: the behaviour of the collaborators and the failures
  of the external services. \<open>None\<close> in a field named \<open>..._raises\<close> means that the call
  returns normally. \<open>print_raises\<close> is the console: \<open>print\<close> raises
  \<open>UnicodeEncodeError\<close> for a text that the console's encoding cannot show, be it the
  mark of the printing function or a name in the message.
\<close>

record env =
  setup_venv_result :: bool
  source_machines :: "string list option"
  shared_prepare_machine :: "string \<Rightarrow> exc + bool"
  shared_run_log_extraction ::
    "string \<Rightarrow> string \<Rightarrow> string \<Rightarrow> fsnode option \<Rightarrow> (exc + bool) \<times> fsnode option"
  determine_update_type_and_check :: "string \<Rightarrow> string \<Rightarrow> exc + string"
  rmtree_raises :: "string \<Rightarrow> (exc \<times> (string \<times> fsnode) list) option"
  makedirs_raises :: "exc option"
  get_minio_client_raises :: "exc option"
  bucket_exists_raises :: "exc option"
  make_bucket_raises :: "exc option"
  fput_object_raises :: "nat \<Rightarrow> exc option"
  mongo_client_raises :: "exc option"
  find_one_raises :: "exc option"
  insert_one_raises :: "exc option"
  update_one_raises :: "exc option"
  signal_file_raises :: "exc option"
  print_raises :: "printer \<Rightarrow> message \<Rightarrow> exc option"

text \<open>The same environment with a console that shows every text.\<close>

definition working_console :: "env \<Rightarrow> env" where
  "working_console en = en\<lparr>print_raises := (\<lambda>k msg. None)\<rparr>"

definition log_event :: "event \<Rightarrow> world \<Rightarrow> world" where
  "log_event ev w = w\<lparr>trace := trace w @ [ev]\<rparr>"

section \<open>Paths and the directory walk\<close>

text \<open>
  \<open>os.path.join(a, b)\<close> on a POSIX host, for a non-empty \<open>a\<close> without a trailing
  separator and a relative \<open>b\<close>.
\<close>

definition path_join :: "string \<Rightarrow> string \<Rightarrow> string" where
  "path_join a b = a @ ''/'' @ b"

text \<open>\<open>os.path.relpath(p, start)\<close> for a path \<open>p\<close> below \<open>start\<close>.\<close>

definition relpath :: "string \<Rightarrow> string \<Rightarrow> string" where
  "relpath p start = drop (length start + 1) p"

text \<open>The directory of machine \<open>name\<close> under the output root, when there is one.\<close>

definition machine_node :: "world \<Rightarrow> string \<Rightarrow> fsnode option" where
  "machine_node w name =
     (case output_root w of
        Some (Dir es) \<Rightarrow> map_of es name
      | _ \<Rightarrow> None)"

definition isdir :: "fsnode option \<Rightarrow> bool" where
  "isdir n = (case n of Some (Dir es) \<Rightarrow> True | _ \<Rightarrow> False)"

text \<open>\<open>os.path.isfile(os.path.join(d, name))\<close> for the node \<open>d\<close> of a directory path.\<close>

definition isfile_in :: "fsnode option \<Rightarrow> string \<Rightarrow> bool" where
  "isfile_in d name =
     (case d of
        Some (Dir es) \<Rightarrow> (case map_of es name of Some File \<Rightarrow> True | _ \<Rightarrow> False)
      | _ \<Rightarrow> False)"

text \<open>
  \<open>os.walk(dirpath)\<close>, top-down: one triple (directory path, names of its subdirectories,
  names of its files) for the directory itself, then the triples of each subdirectory, in
  the order of the listing. Errors of the listing are ignored by \<open>os.walk\<close>, so the walk
  of something that is not a directory is empty.
\<close>

fun os_walk :: "string \<Rightarrow> fsnode \<Rightarrow> (string \<times> string list \<times> string list) list" where
  "os_walk dirpath File = []"
| "os_walk dirpath (Dir es) =
     (dirpath, map fst (filter (\<lambda>e. is_dir (snd e)) es),
           map fst (filter (\<lambda>e. \<not> is_dir (snd e)) es))
     # concat (map (\<lambda>e. os_walk (path_join dirpath (fst e)) (snd e)) es)"

section \<open>Double precision\<close>

text \<open>
  Python computes the success rate of an upload in IEEE 754 double precision. A double is
  modelled by the rational number it denotes. \<open>to_double\<close> rounds a rational number to
  the nearest double, ties to the even significand, for magnitudes in the normal range:
  the result has a significand of 53 bits at the binary exponent of the argument. Python's
  division of two integers and its product of two doubles are the exact results rounded
  in this way.
\<close>

definition round_half_even :: "rat \<Rightarrow> int" where
  "round_half_even x =
     (let n = \<lfloor>x\<rfloor>; r = x - of_int n
      in if r < 1 / 2 then n
         else if r > 1 / 2 then n + 1
         else if even n then n else n + 1)"

text \<open>The binary exponent \<open>e\<close> of a positive number: \<open>2 powi e \<le> x < 2 powi (e + 1)\<close>.\<close>

definition exponent :: "rat \<Rightarrow> int" where
  "exponent x =
     (let k = bitlen (fst (quotient_of x)) - bitlen (snd (quotient_of x))
      in if x < 2 powi k then k - 1 else k)"

definition to_double :: "rat \<Rightarrow> rat" where
  "to_double x =
     (if x = 0 then 0
      else let ulp = 2 powi (exponent \<bar>x\<bar> - 52)
           in sgn x * (of_int (round_half_even (\<bar>x\<bar> / ulp)) * ulp))"

section \<open>Upload to the object store\<close>

definition MINIO_BUCKET_NAME :: string where
  "MINIO_BUCKET_NAME = ''hpe-log-analysis''"

text \<open>
  \<open>client.fput_object(bucket, key, path)\<close>: the call is counted and recorded; when it
  does not raise, the key is stored.
\<close>

definition fput_object :: "env \<Rightarrow> string \<Rightarrow> string \<Rightarrow> world \<Rightarrow> exc option \<times> world" where
  "fput_object en key path w =
     (let w1 = log_event (FPut key path) (w\<lparr>fput_calls := fput_calls w + 1\<rparr>)
      in case fput_object_raises en (fput_calls w) of
           Some e \<Rightarrow> (Some e, w1)
         | None \<Rightarrow> (None, w1\<lparr>objects := List.insert key (objects w1)\<rparr>))"

text \<open>
  The loop \<open>for attempt in range(3)\<close> over the attempts still to make. The result is the
  exception that leaves the loop (raised by the last attempt), whether the file was
  uploaded, and the new world.
\<close>

fun retry_loop ::
  "env \<Rightarrow> string \<Rightarrow> string \<Rightarrow> string \<Rightarrow> nat list \<Rightarrow> world \<Rightarrow> exc option \<times> bool \<times> world" where
  "retry_loop en file minio_path file_path [] w = (None, False, w)"
| "retry_loop en file minio_path file_path (attempt # rest) w =
     (case fput_object en minio_path file_path w of
        (None, w1) \<Rightarrow> (None, True, w1)
      | (Some e, w1) \<Rightarrow>
          if attempt < 2
          then retry_loop en file minio_path file_path rest
                 (log_event (Sleep 1) (log_event (RetryWarning (attempt + 1) file) w1))
          else (Some e, False, w1))"

record upload_stats =
  upload_count :: nat
  file_count :: nat
  error_count :: nat

definition no_stats :: upload_stats where
  "no_stats = \<lparr>upload_count = 0, file_count = 0, error_count = 0\<rparr>"

text \<open>
  The body of the inner loop for one file \<open>file\<close> of the directory \<open>dirpath\<close>, on a
  console that shows every text: the progress message computed from \<open>file_count\<close> and
  \<open>total_files\<close> is then only printed and is left out.
\<close>

definition upload_file ::
  "env \<Rightarrow> string \<Rightarrow> string \<Rightarrow> upload_stats \<times> world \<Rightarrow> string \<times> string \<Rightarrow> upload_stats \<times> world" where
  "upload_file en machine_prefix output_path acc df =
     (let st = fst acc; w = snd acc; dirpath = fst df; file = snd df;
          st1 = st\<lparr>file_count := file_count st + 1\<rparr>;
          file_path = path_join dirpath file;
          rel_path = relpath file_path output_path;
          minio_path = machine_prefix @ ''/'' @ replace_char (CHR 0x5C) (CHR ''/'') rel_path
      in case retry_loop en file minio_path file_path [0, 1, 2] w of
           (Some e, uploaded, w1) \<Rightarrow>
             (st1\<lparr>error_count := error_count st1 + 1\<rparr>, log_event (UploadError file) w1)
         | (None, uploaded, w1) \<Rightarrow>
             (if uploaded then st1\<lparr>upload_count := upload_count st1 + 1\<rparr> else st1, w1))"

text \<open>
  The files in the order of the two nested loops: the triples of the walk in turn, and for
  each triple its file names sorted.
\<close>

definition walk_files :: "string \<Rightarrow> fsnode \<Rightarrow> (string \<times> string) list" where
  "walk_files output_path node =
     concat (map (\<lambda>t. map (\<lambda>file. (fst t, file)) (sort (snd (snd t))))
                 (os_walk output_path node))"

definition upload_files ::
  "env \<Rightarrow> string \<Rightarrow> string \<Rightarrow> (string \<times> string) list \<Rightarrow> upload_stats \<times> world \<Rightarrow> upload_stats \<times> world" where
  "upload_files en machine_prefix output_path files acc =
     foldl (upload_file en machine_prefix output_path) acc files"

text \<open>
  The final report: \<open>success_rate = (upload_count / total_files) * 100\<close> is a quotient
  of integers rounded to a double, times 100, rounded again.
\<close>

definition final_report :: "nat \<Rightarrow> nat \<Rightarrow> bool" where
  "final_report uploaded total_files =
     (if uploaded > 0
      then (let success_rate =
                  (if total_files > 0
                   then to_double (to_double (of_nat uploaded / of_nat total_files) * 100)
                   else 0)
            in if success_rate \<ge> 80 then True else False)
      else if total_files > 0 then False
      else True)"

text \<open>
  The bucket check: the exception raised by \<open>bucket_exists\<close> or \<open>make_bucket\<close>, if
  any, and the new world.
\<close>

definition ensure_bucket :: "env \<Rightarrow> world \<Rightarrow> exc option \<times> world" where
  "ensure_bucket en w =
     (let w1 = log_event BucketExists w
      in case bucket_exists_raises en of
           Some e \<Rightarrow> (Some e, w1)
         | None \<Rightarrow>
             if \<not> bucket_present w1
             then (let w2 = log_event MakeBucket w1
                   in case make_bucket_raises en of
                        Some e \<Rightarrow> (Some e, w2)
                      | None \<Rightarrow> (None, w2\<lparr>bucket_present := True\<rparr>))
             else (None, w1))"

text \<open>
  The body of \<open>upload_to_minio\<close> inside its \<open>try\<close>, on a console that shows every
  text. The result is the value returned or the exception that reaches the handler, the
  three counters, and the new world. The directory named by \<open>base_output_dir_str\<close> is
  the world's output root.
\<close>

definition upload_to_minio_body ::
  "env \<Rightarrow> string \<Rightarrow> string \<Rightarrow> world \<Rightarrow> (exc + bool) \<times> upload_stats \<times> world" where
  "upload_to_minio_body en machine_name base_output_dir_str w0 =
     (let w = log_event (UploadStart machine_name) w0
      in case get_minio_client_raises en of
           Some e \<Rightarrow> (Inl e, no_stats, w)
         | None \<Rightarrow>
             let machine_prefix = sanitize_name machine_name;
                 output_path = path_join base_output_dir_str machine_name
             in case machine_node w machine_name of
                  None \<Rightarrow> (Inr False, no_stats, w)
                | Some File \<Rightarrow> (Inr False, no_stats, w)
                | Some (Dir es) \<Rightarrow>
                    (case ensure_bucket en w of
                       (Some e, w1) \<Rightarrow> (Inr False, no_stats, w1)
                     | (None, w1) \<Rightarrow>
                         let total_files = sum_list (map (\<lambda>t. length (snd (snd t)))
                                                         (os_walk output_path (Dir es)))
                         in if total_files = 0 then (Inr True, no_stats, w1)
                            else
                              let r = upload_files en machine_prefix output_path
                                        (walk_files output_path (Dir es)) (no_stats, w1)
                              in (Inr (final_report (upload_count (fst r)) total_files),
                                  fst r, snd r)))"

text \<open>
  The same loop body with the console: the progress message is printed for the first and
  the last file and for every fiftieth one, inside the \<open>try\<close> of the file, so that a
  \<open>print\<close> that raises counts the file as failed before any attempt.
\<close>

definition upload_file_console ::
  "env \<Rightarrow> nat \<Rightarrow> string \<Rightarrow> string \<Rightarrow> upload_stats \<times> world \<Rightarrow> string \<times> string
     \<Rightarrow> upload_stats \<times> world" where
  "upload_file_console en total_files machine_prefix output_path acc df =
     (let st = fst acc; w = snd acc; file = snd df;
          st1 = st\<lparr>file_count := file_count st + 1\<rparr>;
          n = file_count st1;
          logged = (n mod 10 = 0 \<or> n = 1 \<or> n = total_files);
          printed = (logged \<and> (n mod 50 = 0 \<or> n = 1 \<or> n = total_files))
      in case (if printed then print_raises en PrintStep (Progress n total_files file)
               else None) of
           Some e \<Rightarrow>
             (st1\<lparr>error_count := error_count st1 + 1\<rparr>, log_event (UploadError file) w)
         | None \<Rightarrow> upload_file en machine_prefix output_path acc df)"

definition upload_files_console ::
  "env \<Rightarrow> nat \<Rightarrow> string \<Rightarrow> string \<Rightarrow> (string \<times> string) list \<Rightarrow> upload_stats \<times> world
     \<Rightarrow> upload_stats \<times> world" where
  "upload_files_console en total_files machine_prefix output_path files acc =
     foldl (upload_file_console en total_files machine_prefix output_path) acc files"

text \<open>
  The body of \<open>upload_to_minio\<close> inside its \<open>try\<close> with the console: a \<open>print\<close>
  that raises takes the exception to the handler, from the bucket check's own handler as
  from everywhere else. The final report prints a success, a warning or an error.
\<close>

definition upload_to_minio_body_console ::
  "env \<Rightarrow> string \<Rightarrow> string \<Rightarrow> world \<Rightarrow> (exc + bool) \<times> upload_stats \<times> world" where
  "upload_to_minio_body_console en machine_name base_output_dir_str w0 =
     (let w = log_event (UploadStart machine_name) w0
      in case print_raises en PrintStep (StartingUpload machine_name) of
           Some e \<Rightarrow> (Inl e, no_stats, w)
         | None \<Rightarrow>
        (case get_minio_client_raises en of
           Some e \<Rightarrow> (Inl e, no_stats, w)
         | None \<Rightarrow>
             let machine_prefix = sanitize_name machine_name;
                 output_path = path_join base_output_dir_str machine_name;
                 not_found = (case print_raises en PrintError (OutputDirNotFound output_path) of
                                Some e \<Rightarrow> (Inl e, no_stats, w)
                              | None \<Rightarrow> (Inr False, no_stats, w))
             in case machine_node w machine_name of
                  None \<Rightarrow> not_found
                | Some File \<Rightarrow> not_found
                | Some (Dir es) \<Rightarrow>
                    (case ensure_bucket en w of
                       (Some e, w1) \<Rightarrow>
                         (case print_raises en PrintError (BucketCheckFailed e) of
                            Some e' \<Rightarrow> (Inl e', no_stats, w1)
                          | None \<Rightarrow> (Inr False, no_stats, w1))
                     | (None, w1) \<Rightarrow>
                         let total_files = sum_list (map (\<lambda>t. length (snd (snd t)))
                                                         (os_walk output_path (Dir es)))
                         in if total_files = 0
                            then (case print_raises en PrintWarning
                                         (NoFilesFound output_path machine_name) of
                                    Some e \<Rightarrow> (Inl e, no_stats, w1)
                                  | None \<Rightarrow> (Inr True, no_stats, w1))
                            else
                              (case print_raises en PrintStep
                                      (FoundFiles total_files machine_name) of
                                 Some e \<Rightarrow> (Inl e, no_stats, w1)
                               | None \<Rightarrow>
                                   let r = upload_files_console en total_files machine_prefix
                                             output_path (walk_files output_path (Dir es))
                                             (no_stats, w1);
                                       uploaded = upload_count (fst r);
                                       ok = final_report uploaded total_files;
                                       shown =
                                         (if uploaded > 0
                                          then (if ok
                                                then print_raises en PrintSuccess
                                                       (UploadedFiles uploaded total_files
                                                          machine_prefix)
                                                else print_raises en PrintWarning
                                                       (PartialUpload machine_name))
                                          else if total_files > 0
                                          then print_raises en PrintError
                                                 (NothingUploaded machine_name)
                                          else None)
                                   in case shown of
                                        Some e \<Rightarrow> (Inl e, fst r, snd r)
                                      | None \<Rightarrow> (Inr ok, fst r, snd r)))))"

text \<open>
  \<open>upload_to_minio\<close> with the console: the handler prints the exception of the body with
  \<open>print_error\<close> and returns \<open>False\<close>; when that \<open>print\<close> raises, its exception
  leaves the function.
\<close>

definition upload_to_minio_console ::
  "env \<Rightarrow> string \<Rightarrow> string \<Rightarrow> world \<Rightarrow> (exc + bool) \<times> upload_stats \<times> world" where
  "upload_to_minio_console en machine_name base_output_dir_str w =
     (case upload_to_minio_body_console en machine_name base_output_dir_str w of
        (Inl e, st, w1) \<Rightarrow>
          (case print_raises en PrintError (UploadException machine_name e) of
             Some e' \<Rightarrow> (Inl e', st, w1)
           | None \<Rightarrow> (Inr False, st, w1))
      | (Inr b, st, w1) \<Rightarrow> (Inr b, st, w1))"

text \<open>
  \<open>upload_to_minio\<close> on a console that shows every text, which is what the run below
  and the properties of the run take for granted.
\<close>

definition upload_to_minio ::
  "env \<Rightarrow> string \<Rightarrow> string \<Rightarrow> world \<Rightarrow> (exc + bool) \<times> upload_stats \<times> world" where
  "upload_to_minio en machine_name base_output_dir_str w =
     upload_to_minio_console (working_console en) machine_name base_output_dir_str w"

section \<open>Analytics counters\<close>

text \<open>
  The calls to the counter store in the body of \<open>update_machine_status_counts\<close>: the
  exception that reaches the handler, if any, and the new world. Building the client
  raises when the configuration is missing (\<open>int(None)\<close>); each call to the store can
  raise.
\<close>

definition update_machine_status_counts_body ::
  "env \<Rightarrow> int \<Rightarrow> int \<Rightarrow> world \<Rightarrow> exc option \<times> world" where
  "update_machine_status_counts_body en success_count failure_count w =
     (case mongo_client_raises en of
        Some e \<Rightarrow> (Some e, w)
      | None \<Rightarrow>
          (case find_one_raises en of
             Some e \<Rightarrow> (Some e, w)
           | None \<Rightarrow>
               (case analytics w of
                  None \<Rightarrow>
                    (case insert_one_raises en of
                       Some e \<Rightarrow> (Some e, w)
                     | None \<Rightarrow> (None, w\<lparr>analytics := Some (success_count, failure_count)\<rparr>))
                | Some doc \<Rightarrow>
                    (case update_one_raises en of
                       Some e \<Rightarrow> (Some e, w)
                     | None \<Rightarrow>
                         (None, w\<lparr>analytics :=
                                    Some (fst doc + success_count, snd doc + failure_count)\<rparr>)))))"

text \<open>
  The whole body inside the \<open>try\<close>, with the console: after the store is updated the
  body prints a success, and a \<open>print\<close> that raises takes the exception to the handler.
\<close>

definition update_machine_status_counts_body_console ::
  "env \<Rightarrow> int \<Rightarrow> int \<Rightarrow> world \<Rightarrow> exc option \<times> world" where
  "update_machine_status_counts_body_console en success_count failure_count w =
     (case update_machine_status_counts_body en success_count failure_count w of
        (Some e, w1) \<Rightarrow> (Some e, w1)
      | (None, w1) \<Rightarrow>
          (print_raises en PrintSuccess (AnalyticsUpdated success_count failure_count), w1))"

text \<open>
  \<open>update_machine_status_counts\<close> with the console: the exception that leaves the
  function, if any, and the new world. The handler prints the exception of the body with
  \<open>print_error\<close> and logs it; when that \<open>print\<close> raises, its exception leaves the
  function.
\<close>

definition update_machine_status_counts_console ::
  "env \<Rightarrow> int \<Rightarrow> int \<Rightarrow> world \<Rightarrow> exc option \<times> world" where
  "update_machine_status_counts_console en success_count failure_count w =
     (case update_machine_status_counts_body_console en success_count failure_count w of
        (Some e, w1) \<Rightarrow>
          (case print_raises en PrintError (AnalyticsFailed e) of
             Some e' \<Rightarrow> (Some e', w1)
           | None \<Rightarrow> (None, log_event AnalyticsError w1))
      | (None, w1) \<Rightarrow> (None, log_event (RecordCounts success_count failure_count) w1))"

text \<open>
  \<open>update_machine_status_counts\<close> on a console that shows every text, which is what the
  run below takes for granted.
\<close>

definition update_machine_status_counts ::
  "env \<Rightarrow> int \<Rightarrow> int \<Rightarrow> world \<Rightarrow> exc option \<times> world" where
  "update_machine_status_counts en success_count failure_count w =
     update_machine_status_counts_console (working_console en) success_count failure_count w"

section \<open>Classification of an update\<close>

text \<open>
  The success marker, the check mark U+2705, as its UTF-8 bytes; the classifier's result
  is a byte string in the same encoding, in which one string contains another exactly when
  the encodings do.
\<close>

definition success_marker :: string where
  "success_marker = [CHR 0xE2, CHR 0x9C, CHR 0x85]"

text \<open>
  The body of \<open>check_firmware_update_status\<close> inside its \<open>try\<close>: the value returned or
  the exception of the classifier.
\<close>

definition check_firmware_update_status_body :: "env \<Rightarrow> string \<Rightarrow> string \<Rightarrow> world \<Rightarrow> exc + bool" where
  "check_firmware_update_status_body en machine_name base_output_dir_str w =
     (let output_path = path_join base_output_dir_str machine_name;
          installsetlog_path = path_join output_path ''installSetLogs.log'';
          cidebug_path = path_join output_path ''ciDebug.log''
      in if \<not> isfile_in (machine_node w machine_name) ''installSetLogs.log'' then Inr False
         else if \<not> isfile_in (machine_node w machine_name) ''ciDebug.log'' then Inr False
         else
           (case determine_update_type_and_check en installsetlog_path cidebug_path of
              Inl e \<Rightarrow> Inl e
            | Inr result \<Rightarrow> if sublist success_marker result then Inr True else Inr False))"

definition check_firmware_update_status :: "env \<Rightarrow> string \<Rightarrow> string \<Rightarrow> world \<Rightarrow> exc + bool" where
  "check_firmware_update_status en machine_name base_output_dir_str w =
     (case check_firmware_update_status_body en machine_name base_output_dir_str w of
        Inl e \<Rightarrow> Inr False
      | Inr b \<Rightarrow> Inr b)"

section \<open>Signal file\<close>

text \<open>
  \<open>write_master_signal\<close>: the value returned and the new world. Creating or removing
  the file can raise; the handler returns \<open>False\<close>.
\<close>

definition write_master_signal :: "env \<Rightarrow> bool \<Rightarrow> world \<Rightarrow> bool \<times> world" where
  "write_master_signal en should_run_master w0 =
     (let w = log_event (SetSignal should_run_master) w0
      in if should_run_master
         then (case signal_file_raises en of
                 Some e \<Rightarrow> (False, w)
               | None \<Rightarrow> (True, w\<lparr>signal_file := True\<rparr>))
         else if signal_file w
              then (case signal_file_raises en of
                      Some e \<Rightarrow> (False, w)
                    | None \<Rightarrow> (True, w\<lparr>signal_file := False\<rparr>))
              else (True, w))"

section \<open>Removing directories\<close>

text \<open>
  \<open>shutil.rmtree(path)\<close> on the node at \<open>path\<close>: the exception raised, if any, and
  what is left at the path. It raises on a file; on a directory it can fail and leave some
  of the entries behind.
\<close>

definition rmtree :: "env \<Rightarrow> string \<Rightarrow> fsnode \<Rightarrow> exc option \<times> fsnode option" where
  "rmtree en path node =
     (case node of
        File \<Rightarrow> (Some (Exc ''Not a directory''), Some File)
      | Dir es \<Rightarrow>
          (case rmtree_raises en path of
             None \<Rightarrow> (None, None)
           | Some er \<Rightarrow> (Some (fst er), Some (Dir (snd er)))))"

text \<open>The entries of a directory with the entry \<open>name\<close> replaced or removed.\<close>

definition set_entry ::
  "string \<Rightarrow> fsnode option \<Rightarrow> (string \<times> fsnode) list \<Rightarrow> (string \<times> fsnode) list" where
  "set_entry name new es =
     (case new of
        None \<Rightarrow> filter (\<lambda>e. fst e \<noteq> name) es
      | Some node \<Rightarrow> map (\<lambda>e. if fst e = name then (name, node) else e) es)"

text \<open>
  The removal of a successful machine's output directory in \<open>main\<close>, with its own
  \<open>try\<close>: an exception of \<open>rmtree\<close> is logged and goes no further.
\<close>

definition remove_machine_output :: "env \<Rightarrow> string \<Rightarrow> string \<Rightarrow> world \<Rightarrow> world" where
  "remove_machine_output en machine_name base_output_dir_str w =
     (let machine_output_path = path_join base_output_dir_str machine_name
      in case output_root w of
           Some (Dir es) \<Rightarrow>
             (case map_of es machine_name of
                None \<Rightarrow> w
              | Some node \<Rightarrow>
                  (let r = rmtree en machine_output_path node
                   in (log_event (Rmtree machine_output_path) w)
                        \<lparr>output_root := Some (Dir (set_entry machine_name (snd r) es))\<rparr>))
         | _ \<Rightarrow> w)"

text \<open>
  \<open>cleanup_directories\<close>, as far as the output root goes: it is removed when it exists
  and created again. The handler returns \<open>False\<close>.
\<close>

definition cleanup_directories :: "env \<Rightarrow> string \<Rightarrow> world \<Rightarrow> bool \<times> world" where
  "cleanup_directories en base_output_dir_str w =
     (let r = (case output_root w of
                 None \<Rightarrow> (None, None)
               | Some node \<Rightarrow> rmtree en base_output_dir_str node)
      in case fst r of
           Some e \<Rightarrow> (False, w\<lparr>output_root := snd r\<rparr>)
         | None \<Rightarrow>
             (case makedirs_raises en of
                Some e \<Rightarrow> (False, w\<lparr>output_root := None\<rparr>)
              | None \<Rightarrow> (True, w\<lparr>output_root := Some (Dir [])\<rparr>)))"

section \<open>The run\<close>

text \<open>The local variables of \<open>main\<close> that the loop over the machines changes, and the world.\<close>

record run_state =
  success_count :: nat
  failure_count :: nat
  prep_extract_failures :: "string list"
  rs_world :: world

text \<open>
  The body of the loop over the machines: the exception that leaves it, if any, and the
  new state. The extraction is given the output root and leaves a new one.
\<close>

definition process_machine ::
  "env \<Rightarrow> string \<Rightarrow> string \<Rightarrow> run_state \<Rightarrow> string \<Rightarrow> exc option \<times> run_state" where
  "process_machine en base_source_dir base_output_dir st machine_name =
     (let machine_path = path_join base_source_dir machine_name
      in case shared_prepare_machine en machine_path of
           Inl e \<Rightarrow> (Some e, st)
         | Inr prep_success \<Rightarrow>
             if \<not> prep_success
             then (None, st\<lparr>prep_extract_failures := prep_extract_failures st @ [machine_name]\<rparr>)
             else
               (let x = shared_run_log_extraction en machine_name base_source_dir base_output_dir
                          (output_root (rs_world st));
                    w1 = (rs_world st)\<lparr>output_root := snd x\<rparr>
                in case fst x of
                     Inl e \<Rightarrow> (Some e, st\<lparr>rs_world := w1\<rparr>)
                   | Inr extract_success \<Rightarrow>
                       if \<not> extract_success
                       then (None, st\<lparr>prep_extract_failures :=
                                          prep_extract_failures st @ [machine_name],
                                        rs_world := w1\<rparr>)
                       else
                         (case check_firmware_update_status en machine_name base_output_dir w1 of
                            Inl e \<Rightarrow> (Some e, st\<lparr>rs_world := w1\<rparr>)
                          | Inr is_update_success \<Rightarrow>
                              if is_update_success
                              then (None, st\<lparr>success_count := success_count st + 1,
                                               rs_world := remove_machine_output en machine_name
                                                             base_output_dir w1\<rparr>)
                              else
                                (let st1 = st\<lparr>failure_count := failure_count st + 1\<rparr>;
                                     u = upload_to_minio en machine_name base_output_dir w1
                                 in case fst u of
                                      Inl e \<Rightarrow> (Some e, st1\<lparr>rs_world := snd (snd u)\<rparr>)
                                    | Inr upload_success \<Rightarrow>
                                        if \<not> upload_success
                                        then (None, st1\<lparr>prep_extract_failures :=
                                                            prep_extract_failures st1
                                                            @ [machine_name @ '' (upload)''],
                                                          rs_world := snd (snd u)\<rparr>)
                                        else (None, st1\<lparr>rs_world := snd (snd u)\<rparr>)))))"

fun process_machines ::
  "env \<Rightarrow> string \<Rightarrow> string \<Rightarrow> run_state \<Rightarrow> string list \<Rightarrow> exc option \<times> run_state" where
  "process_machines en base_source_dir base_output_dir st [] = (None, st)"
| "process_machines en base_source_dir base_output_dir st (machine_name # rest) =
     (case process_machine en base_source_dir base_output_dir st machine_name of
        (Some e, st1) \<Rightarrow> (Some e, st1)
      | (None, st1) \<Rightarrow> process_machines en base_source_dir base_output_dir st1 rest)"

text \<open>
  \<open>main\<close>, on a console that shows every text: the value returned, and the state in
  which it returns. Any exception that reaches the outer handler makes the run return
  \<open>False\<close>; listing an output root that is not a directory raises.
\<close>

definition main :: "env \<Rightarrow> world \<Rightarrow> bool \<times> run_state" where
  "main en w0 =
     (let base_source_dir = ''machines'';
          base_output_dir = ''output'';
          st0 = \<lparr>success_count = 0, failure_count = 0, prep_extract_failures = [],
                 rs_world = w0\<rparr>
      in if \<not> setup_venv_result en then (False, st0)
         else
           (let st1 = st0\<lparr>rs_world := snd (cleanup_directories en base_output_dir w0)\<rparr>
            in case source_machines en of
                 None \<Rightarrow> (False, st1)
               | Some machines \<Rightarrow>
                   (case (if machines = [] then (None, st1)
                          else process_machines en base_source_dir base_output_dir st1
                                 (sort machines)) of
                      (Some e, st2) \<Rightarrow> (False, st2)
                    | (None, st2) \<Rightarrow>
                        (let overall_success = (prep_extract_failures st2 = []);
                             a = (if success_count st2 > 0 \<or> failure_count st2 > 0
                                  then update_machine_status_counts en
                                         (int (success_count st2)) (int (failure_count st2))
                                         (rs_world st2)
                                  else (None, rs_world st2))
                         in case fst a of
                              Some e \<Rightarrow> (False, st2\<lparr>rs_world := snd a\<rparr>)
                            | None \<Rightarrow>
                                (case output_root (snd a) of
                                   Some (Dir es) \<Rightarrow>
                                     (let output_dirs = filter (\<lambda>d. is_dir (snd d)) es;
                                          output_empty = (length output_dirs = 0);
                                          s = (if output_empty
                                               then write_master_signal en False (snd a)
                                               else if failure_count st2 > 0
                                               then write_master_signal en True (snd a)
                                               else write_master_signal en False (snd a))
                                      in (overall_success, st2\<lparr>rs_world := snd s\<rparr>))
                                 | _ \<Rightarrow> (False, st2\<lparr>rs_world := snd a\<rparr>))))))"

section \<open>Notions used to state the properties\<close>

text \<open>The number of files below a node.\<close>

fun count_files :: "fsnode \<Rightarrow> nat" where
  "count_files File = 1"
| "count_files (Dir es) = sum_list (map (\<lambda>e. count_files (snd e)) es)"

text \<open>The node reached from a node along a list of names.\<close>

fun resolve :: "fsnode \<Rightarrow> string list \<Rightarrow> fsnode option" where
  "resolve node [] = Some node"
| "resolve File (n # ns) = None"
| "resolve (Dir es) (n # ns) = (case map_of es n of None \<Rightarrow> None | Some t \<Rightarrow> resolve t ns)"

text \<open>A tree that a file system can hold: the names in a directory are distinct.\<close>

fun wf_node :: "fsnode \<Rightarrow> bool" where
  "wf_node File = True"
| "wf_node (Dir es) = (distinct (map fst es) \<and> list_all (\<lambda>e. wf_node (snd e)) es)"

fun is_signal :: "event \<Rightarrow> bool" where
  "is_signal (SetSignal b) = True"
| "is_signal ev = False"

text \<open>
  The world \<open>w'\<close> continues \<open>w\<close> without a call of \<open>write_master_signal\<close>: its events
  are those of \<open>w\<close> followed by events that are not \<open>SetSignal\<close>, and the signal file
  is as it was.
\<close>

definition quiet :: "world \<Rightarrow> world \<Rightarrow> bool" where
  "quiet w w' =
     ((\<exists>evs. trace w' = trace w @ evs \<and> \<not> list_ex is_signal evs)
      \<and> signal_file w' = signal_file w)"

section \<open>Example inputs\<close>

definition world0 :: world where
  "world0 = \<lparr>output_root = None, bucket_present = False, objects = [], fput_calls = 0,
             analytics = None, signal_file = False, trace = []\<rparr>"

definition state0 :: run_state where
  "state0 = \<lparr>success_count = 0, failure_count = 0, prep_extract_failures = [],
              rs_world = world0\<rparr>"

text \<open>
  One machine \<open>m\<close>; nothing fails; the extraction leaves both logs and one more file,
  and the classifier reports a success.
\<close>

definition logs_ok :: fsnode where
  "logs_ok = Dir [(''installSetLogs.log'', File), (''ciDebug.log'', File), (''x.txt'', File)]"

definition env_ok :: env where
  "env_ok =
     \<lparr>setup_venv_result = True,
      source_machines = Some [''m''],
      shared_prepare_machine = (\<lambda>p. Inr True),
      shared_run_log_extraction = (\<lambda>m s out fs. (Inr True, Some (Dir [(m, logs_ok)]))),
      determine_update_type_and_check = (\<lambda>a b. Inr (success_marker @ '' FULL UPDATE SUCCESS'')),
      rmtree_raises = (\<lambda>p. None),
      makedirs_raises = None,
      get_minio_client_raises = None,
      bucket_exists_raises = None,
      make_bucket_raises = None,
      fput_object_raises = (\<lambda>n. None),
      mongo_client_raises = None,
      find_one_raises = None,
      insert_one_raises = None,
      update_one_raises = None,
      signal_file_raises = None,
      print_raises = (\<lambda>k msg. None)\<rparr>"

text \<open>The extraction succeeds but leaves no \<open>installSetLogs.log\<close>.\<close>

definition env_missing_log :: env where
  "env_missing_log =
     env_ok\<lparr>shared_run_log_extraction :=
              (\<lambda>m s out fs. (Inr True, Some (Dir [(m, Dir [(''ciDebug.log'', File)])])))\<rparr>"

text \<open>The extraction succeeds but leaves no directory for the machine.\<close>

definition env_no_output :: env where
  "env_no_output =
     env_ok\<lparr>shared_run_log_extraction := (\<lambda>m s out fs. (Inr True, Some (Dir [])))\<rparr>"

text \<open>Removing the machine's output directory fails and leaves one file behind.\<close>

definition env_rmtree_fails :: env where
  "env_rmtree_fails =
     env_ok\<lparr>rmtree_raises := (\<lambda>p. Some (Exc ''Permission denied'', [(''x.txt'', File)]))\<rparr>"

text \<open>The environment setup fails.\<close>

definition env_no_venv :: env where
  "env_no_venv = env_ok\<lparr>setup_venv_result := False\<rparr>"

text \<open>A world left by an earlier run: an empty output root and the signal file.\<close>

definition world_stale :: world where
  "world_stale = world0\<lparr>output_root := Some (Dir []), signal_file := True\<rparr>"

text \<open>The object store cannot be configured; the counter store cannot either.\<close>

definition env_no_config :: env where
  "env_no_config =
     env_ok\<lparr>get_minio_client_raises := Some (Exc ''invalid endpoint''),
            mongo_client_raises := Some (Exc ''int() argument must be a string'')\<rparr>"

text \<open>
  A console whose encoding has no character for the marks of \<open>print_success\<close>,
  \<open>print_warning\<close> and \<open>print_error\<close>: nothing else fails, or the object store and
  the counter store cannot be configured.
\<close>

definition narrow_console :: "printer \<Rightarrow> message \<Rightarrow> exc option" where
  "narrow_console k msg = (if k = PrintStep then None else Some (Exc ''UnicodeEncodeError''))"

definition env_narrow_ok :: env where
  "env_narrow_ok = env_ok\<lparr>print_raises := narrow_console\<rparr>"

definition env_narrow_console :: env where
  "env_narrow_console = env_no_config\<lparr>print_raises := narrow_console\<rparr>"

text \<open>
  A machine name with a character that the console cannot show, such as a lone surrogate:
  nothing else fails, and every \<open>print\<close> of a message that holds the name or a path
  made from it raises.
\<close>

fun names_machine :: "message \<Rightarrow> bool" where
  "names_machine (StartingUpload m) = True"
| "names_machine (OutputDirNotFound p) = True"
| "names_machine (NoFilesFound p m) = True"
| "names_machine (FoundFiles n m) = True"
| "names_machine (PartialUpload m) = True"
| "names_machine (NothingUploaded m) = True"
| "names_machine (UploadException m e) = True"
| "names_machine msg = False"

definition env_unprintable_name :: env where
  "env_unprintable_name =
     env_ok\<lparr>print_raises :=
       (\<lambda>k msg. if names_machine msg then Some (Exc ''UnicodeEncodeError'') else None)\<rparr>"

text \<open>
  The extraction leaves no \<open>installSetLogs.log\<close>, and the object store cannot be
  configured: the update counts as failed and its upload fails.
\<close>

definition env_upload_fails :: env where
  "env_upload_fails =
     env_missing_log\<lparr>get_minio_client_raises := Some (Exc ''invalid endpoint'')\<rparr>"

text \<open>Every upload attempt fails.\<close>

definition env_fput_fails :: env where
  "env_fput_fails = env_ok\<lparr>fput_object_raises := (\<lambda>n. Some (Exc ''timed out''))\<rparr>"

text \<open>
  A machine directory with ten files, and object stores in which the first six and the
  first nine upload attempts fail: two and three files exhaust their attempts.
\<close>

definition ten_files :: fsnode where
  "ten_files =
     Dir [(''f0'', File), (''f1'', File), (''f2'', File), (''f3'', File), (''f4'', File),
          (''f5'', File), (''f6'', File), (''f7'', File), (''f8'', File), (''f9'', File)]"

definition world_ten :: world where
  "world_ten = world0\<lparr>output_root := Some (Dir [(''m'', ten_files)])\<rparr>"



text \<open>A machine directory with a file and a subdirectory that holds two files.\<close>

definition nested :: fsnode where
  "nested = Dir [(''z.log'', File), (''a'', Dir [(''c.log'', File), (''b.log'', File)])]"

definition world_nested :: world where
  "world_nested = world0\<lparr>output_root := Some (Dir [(''m'', nested)])\<rparr>"

section \<open>Auxiliary lemmas\<close>














lemma log_event_simps [simp]:
  "trace (log_event ev w) = trace w @ [ev]"
  "fput_calls (log_event ev w) = fput_calls w"
  "objects (log_event ev w) = objects w"
  "bucket_present (log_event ev w) = bucket_present w"
  "output_root (log_event ev w) = output_root w"
  "analytics (log_event ev w) = analytics w"
  "signal_file (log_event ev w) = signal_file w"
  by (simp_all add: log_event_def)

lemma working_console_simps [simp]:
  "print_raises (working_console en) k msg = None"
  "get_minio_client_raises (working_console en) = get_minio_client_raises en"
  "bucket_exists_raises (working_console en) = bucket_exists_raises en"
  "make_bucket_raises (working_console en) = make_bucket_raises en"
  "fput_object_raises (working_console en) = fput_object_raises en"
  "mongo_client_raises (working_console en) = mongo_client_raises en"
  "find_one_raises (working_console en) = find_one_raises en"
  "insert_one_raises (working_console en) = insert_one_raises en"
  "update_one_raises (working_console en) = update_one_raises en"
  by (simp_all add: working_console_def)

lemma retry_loop_working_console:
  "retry_loop (working_console en) file key path attempts w = retry_loop en file key path attempts w"
  by (induction attempts arbitrary: w)
     (simp_all add: fput_object_def Let_def split: option.splits)

lemma upload_file_working_console:
  "upload_file_console (working_console en) n pfx out acc df = upload_file en pfx out acc df"
  by (simp add: upload_file_console_def upload_file_def retry_loop_working_console Let_def
      del: retry_loop.simps)

lemma upload_files_working_console:
  "upload_files_console (working_console en) n pfx out files acc
   = upload_files en pfx out files acc"
proof -
  have "upload_file_console (working_console en) n pfx out = upload_file en pfx out"
    by (intro ext) (rule upload_file_working_console)
  then show ?thesis by (simp add: upload_files_console_def upload_files_def)
qed

lemma ensure_bucket_working_console:
  "ensure_bucket (working_console en) w = ensure_bucket en w"
  by (simp add: ensure_bucket_def Let_def split: option.splits)

lemma upload_to_minio_body_working_console:
  "upload_to_minio_body_console (working_console en) m base w = upload_to_minio_body en m base w"
  by (auto simp add: upload_to_minio_body_console_def upload_to_minio_body_def Let_def
      upload_files_working_console ensure_bucket_working_console
      split: option.splits fsnode.splits prod.splits simp del: os_walk.simps)

text \<open>
  On a console that shows every text the handlers return: the two functions then are
  their bodies with every exception turned into \<open>False\<close>, or logged.
\<close>

lemma upload_to_minio_plain:
  "upload_to_minio en m base w =
     (case upload_to_minio_body en m base w of
        (Inl e, st, w1) \<Rightarrow> (Inr False, st, w1)
      | (Inr b, st, w1) \<Rightarrow> (Inr b, st, w1))"
  by (simp add: upload_to_minio_def upload_to_minio_console_def
      upload_to_minio_body_working_console split: prod.splits sum.splits)

lemma update_machine_status_counts_plain:
  "update_machine_status_counts en s f w =
     (case update_machine_status_counts_body en s f w of
        (Some e, w1) \<Rightarrow> (None, log_event AnalyticsError w1)
      | (None, w1) \<Rightarrow> (None, log_event (RecordCounts s f) w1))"
  by (simp add: update_machine_status_counts_def update_machine_status_counts_console_def
      update_machine_status_counts_body_console_def update_machine_status_counts_body_def
      split: option.splits prod.splits)

lemma upload_file_trace:
  "trace (snd (upload_file en pfx out (st, w) (d, f))) =
     trace w @
     (let c = fput_calls w;
          a = FPut (pfx @ ''/'' @ replace_char (CHR 0x5C) (CHR ''/'') (relpath (path_join d f) out))
                   (path_join d f)
      in if fput_object_raises en c = None then [a]
         else if fput_object_raises en (c + 1) = None then [a, RetryWarning 1 f, Sleep 1, a]
         else if fput_object_raises en (c + 2) = None
         then [a, RetryWarning 1 f, Sleep 1, a, RetryWarning 2 f, Sleep 1, a]
         else [a, RetryWarning 1 f, Sleep 1, a, RetryWarning 2 f, Sleep 1, a, UploadError f])"
  by (auto simp add: upload_file_def fput_object_def Let_def split: option.splits)

lemma upload_file_counts:
  "fput_calls (snd (upload_file en pfx out (st, w) (d, f))) \<le> fput_calls w + 3"
  "fput_calls w < fput_calls (snd (upload_file en pfx out (st, w) (d, f)))"
  "file_count (fst (upload_file en pfx out (st, w) (d, f))) = file_count st + 1"
  "(error_count (fst (upload_file en pfx out (st, w) (d, f))),
    upload_count (fst (upload_file en pfx out (st, w) (d, f)))) =
   (if fput_object_raises en (fput_calls w) \<noteq> None
       \<and> fput_object_raises en (fput_calls w + 1) \<noteq> None
       \<and> fput_object_raises en (fput_calls w + 2) \<noteq> None
    then (error_count st + 1, upload_count st) else (error_count st, upload_count st + 1))"
  by (auto simp add: upload_file_def fput_object_def Let_def split: option.splits)

lemma upload_files_counts:
  "file_count (fst (upload_files en pfx out files acc)) = file_count (fst acc) + length files
   \<and> upload_count (fst (upload_files en pfx out files acc))
       + error_count (fst (upload_files en pfx out files acc))
     = upload_count (fst acc) + error_count (fst acc) + length files"
proof (induction files arbitrary: acc)
  case Nil
  then show ?case by (simp add: upload_files_def)
next
  case (Cons x xs)
  obtain st w where acc: "acc = (st, w)" by (cases acc)
  obtain d f where x: "x = (d, f)" by (cases x)
  have step: "upload_files en pfx out (x # xs) acc
              = upload_files en pfx out xs (upload_file en pfx out acc x)"
    by (simp add: upload_files_def)
  have c: "upload_count (fst (upload_file en pfx out (st, w) (d, f)))
           + error_count (fst (upload_file en pfx out (st, w) (d, f)))
           = upload_count st + error_count st + 1"
    using upload_file_counts(4)[of en pfx out st w d f] by (auto split: if_splits)
  show ?case
    unfolding step using Cons.IH[of "upload_file en pfx out acc x"]
    by (simp add: acc x upload_file_counts(3) c)
qed

text \<open>The events and the calls of a batch: every file is attempted, in turn.\<close>

lemma upload_file_attempt:
  "\<exists>evs. trace (snd (upload_file en pfx out acc df)) = trace (snd acc) @ evs
         \<and> FPut (pfx @ ''/'' @ replace_char (CHR 0x5C) (CHR ''/'')
                   (relpath (path_join (fst df) (snd df)) out))
                 (path_join (fst df) (snd df)) \<in> set evs"
proof -
  obtain st w where acc: "acc = (st, w)" by (cases acc)
  obtain d f where df: "df = (d, f)" by (cases df)
  show ?thesis
    unfolding acc df fst_conv snd_conv
    by (rule exI, rule conjI, rule upload_file_trace) (simp add: Let_def)
qed

lemma upload_files_Cons:
  "upload_files en pfx out (x # xs) acc = upload_files en pfx out xs (upload_file en pfx out acc x)"
  by (simp add: upload_files_def)

lemma upload_files_snoc:
  "upload_files en pfx out (xs @ [x]) acc = upload_file en pfx out (upload_files en pfx out xs acc) x"
  by (simp add: upload_files_def)

lemma upload_files_attempts:
  "\<exists>evs. trace (snd (upload_files en pfx out files acc)) = trace (snd acc) @ evs
         \<and> (\<forall>df \<in> set files.
               FPut (pfx @ ''/'' @ replace_char (CHR 0x5C) (CHR ''/'')
                       (relpath (path_join (fst df) (snd df)) out))
                    (path_join (fst df) (snd df)) \<in> set evs)"
proof (induction files arbitrary: acc)
  case Nil
  then show ?case by (simp add: upload_files_def)
next
  case (Cons x xs)
  obtain evs1 where e1: "trace (snd (upload_file en pfx out acc x)) = trace (snd acc) @ evs1"
      "FPut (pfx @ ''/'' @ replace_char (CHR 0x5C) (CHR ''/'')
               (relpath (path_join (fst x) (snd x)) out))
            (path_join (fst x) (snd x)) \<in> set evs1"
    using upload_file_attempt[of en pfx out acc x] by blast
  obtain evs2 where e2:
      "trace (snd (upload_files en pfx out xs (upload_file en pfx out acc x)))
       = trace (snd (upload_file en pfx out acc x)) @ evs2"
      "\<forall>df \<in> set xs.
         FPut (pfx @ ''/'' @ replace_char (CHR 0x5C) (CHR ''/'')
                 (relpath (path_join (fst df) (snd df)) out))
              (path_join (fst df) (snd df)) \<in> set evs2"
    using Cons.IH[of "upload_file en pfx out acc x"] by blast
  have "trace (snd (upload_files en pfx out (x # xs) acc)) = trace (snd acc) @ (evs1 @ evs2)"
    unfolding upload_files_Cons using e1(1) e2(1) by simp
  moreover have "\<forall>df \<in> set (x # xs).
         FPut (pfx @ ''/'' @ replace_char (CHR 0x5C) (CHR ''/'')
                 (relpath (path_join (fst df) (snd df)) out))
              (path_join (fst df) (snd df)) \<in> set (evs1 @ evs2)"
    using e1(2) e2(2) by auto
  ultimately show ?case by blast
qed

lemma upload_files_calls:
  "fput_calls (snd acc) + length files \<le> fput_calls (snd (upload_files en pfx out files acc))
   \<and> fput_calls (snd (upload_files en pfx out files acc))
       \<le> fput_calls (snd acc) + 3 * length files"
proof (induction files arbitrary: acc)
  case Nil
  then show ?case by (simp add: upload_files_def)
next
  case (Cons x xs)
  obtain st w where acc: "acc = (st, w)" by (cases acc)
  obtain d f where x: "x = (d, f)" by (cases x)
  have s: "fput_calls w < fput_calls (snd (upload_file en pfx out acc x))"
          "fput_calls (snd (upload_file en pfx out acc x)) \<le> fput_calls w + 3"
    unfolding acc x
    using upload_file_counts(1,2)[where en = en and pfx = pfx and out = out and st = st
            and w = w and d = d and f = f]
    by simp_all
  show ?case
    unfolding upload_files_Cons
    using Cons.IH[of "upload_file en pfx out acc x"] s by (simp add: acc)
qed

lemma walk_count:
  "sum_list (map (\<lambda>t. length (snd (snd t))) (os_walk p node)) = (if is_dir node then count_files node else 0)"
proof (induction p node rule: os_walk.induct)
  case (1 dirpath)
  then show ?case by simp
next
  case (2 dirpath es)
  have "sum_list (map (\<lambda>t. length (snd (snd t))) (concat (map (\<lambda>e. os_walk (path_join dirpath (fst e)) (snd e)) es)))
        = sum_list (map (\<lambda>e. if is_dir (snd e) then count_files (snd e) else 0) es)"
    using 2 by (induction es) auto
  moreover have "length (filter (\<lambda>e. \<not> is_dir (snd e)) es) + sum_list (map (\<lambda>e. if is_dir (snd e) then count_files (snd e) else 0) es)
     = sum_list (map (\<lambda>e. count_files (snd e)) es)"
  proof (induction es)
    case Nil then show ?case by simp
  next
    case (Cons e es)
    then show ?case by (cases "snd e") auto
  qed
  ultimately show ?case by simp
qed

lemma walk_files_length:
  "length (walk_files p node) = sum_list (map (\<lambda>t. length (snd (snd t))) (os_walk p node))"
  by (simp add: walk_files_def length_concat comp_def)


lemma ensure_bucket_keeps:
  "output_root (snd (ensure_bucket en w)) = output_root w"
  "machine_node (snd (ensure_bucket en w)) m = machine_node w m"
  by (auto simp add: ensure_bucket_def machine_node_def Let_def split: option.splits)

lemma quiet_refl [simp]: "quiet w w"
  by (simp add: quiet_def)

lemma quiet_trans: "quiet w w1 \<Longrightarrow> quiet w1 w2 \<Longrightarrow> quiet w w2"
  by (auto simp add: quiet_def list_ex_iff)

lemma quiet_same_trace:
  "trace w' = trace w \<Longrightarrow> signal_file w' = signal_file w \<Longrightarrow> quiet w w'"
  by (simp add: quiet_def)

lemma quiet_log: "\<not> is_signal ev \<Longrightarrow> quiet w (log_event ev w)"
  by (simp add: quiet_def)

lemma upload_file_signal:
  "signal_file (snd (upload_file en pfx out acc x)) = signal_file (snd acc)"
  by (cases acc; cases x)
     (auto simp add: upload_file_def fput_object_def Let_def split: option.splits)

lemma upload_file_quiet: "quiet (snd acc) (snd (upload_file en pfx out acc x))"
proof -
  obtain st w where acc: "acc = (st, w)" by (cases acc)
  obtain d f where x: "x = (d, f)" by (cases x)
  have "\<exists>evs. trace (snd (upload_file en pfx out (st, w) (d, f))) = trace w @ evs
              \<and> \<not> list_ex is_signal evs"
    by (rule exI, rule conjI, rule upload_file_trace) (simp add: Let_def)
  then show ?thesis
    unfolding acc x quiet_def snd_conv using upload_file_signal[of en pfx out "(st, w)" "(d, f)"]
    by simp
qed

lemma upload_files_quiet: "quiet (snd acc) (snd (upload_files en pfx out files acc))"
proof (induction files arbitrary: acc)
  case Nil
  then show ?case by (simp add: upload_files_def)
next
  case (Cons x xs)
  have step: "upload_files en pfx out (x # xs) acc
              = upload_files en pfx out xs (upload_file en pfx out acc x)"
    by (simp add: upload_files_def)
  show ?case unfolding step
    using quiet_trans[OF upload_file_quiet Cons.IH] .
qed

lemma ensure_bucket_quiet: "quiet w (snd (ensure_bucket en w))"
  by (auto simp add: ensure_bucket_def quiet_def Let_def split: option.splits)

lemma upload_file_root: "output_root (snd (upload_file en pfx out acc x)) = output_root (snd acc)"
  by (cases acc; cases x)
     (auto simp add: upload_file_def fput_object_def Let_def split: option.splits)

lemma upload_files_root: "output_root (snd (upload_files en pfx out files acc)) = output_root (snd acc)"
proof (induction files arbitrary: acc)
  case Nil
  then show ?case by (simp add: upload_files_def)
next
  case (Cons x xs)
  have step: "upload_files en pfx out (x # xs) acc
              = upload_files en pfx out xs (upload_file en pfx out acc x)"
    by (simp add: upload_files_def)
  show ?case unfolding step using Cons.IH[of "upload_file en pfx out acc x"]
    by (simp add: upload_file_root)
qed

lemma upload_to_minio_body_shape:
  "\<exists>w1. snd (snd (upload_to_minio_body en m base w)) = w1
     \<and> quiet (log_event (UploadStart m) w) w1 \<and> output_root w1 = output_root w"
proof -
  let ?w = "log_event (UploadStart m) w"
  have q: "quiet ?w (snd (upload_files en pfx out files (no_stats, snd (ensure_bucket en ?w))))" for pfx out files
    using quiet_trans[OF ensure_bucket_quiet[of ?w en]]
      upload_files_quiet[of "(no_stats, snd (ensure_bucket en ?w))" en pfx out files]
    by simp
  have r: "output_root (snd (upload_files en pfx out files (no_stats, snd (ensure_bucket en ?w)))) = output_root w" for pfx out files
    by (simp add: upload_files_root ensure_bucket_keeps)
  have e: "ensure_bucket en ?w = (a, b) \<Longrightarrow> b = snd (ensure_bucket en ?w)" for a b by simp
  show ?thesis
    using ensure_bucket_quiet[of ?w en]
    by (auto simp add: upload_to_minio_body_def Let_def q r ensure_bucket_keeps
        split: option.splits fsnode.splits prod.splits dest!: e simp del: os_walk.simps)
qed

lemma upload_to_minio_world:
  "snd (snd (upload_to_minio en m base w)) = snd (snd (upload_to_minio_body en m base w))"
  by (simp add: upload_to_minio_plain split: prod.splits sum.splits)

lemma upload_to_minio_quiet:
  "quiet (log_event (UploadStart m) w) (snd (snd (upload_to_minio en m base w)))"
  "output_root (snd (snd (upload_to_minio en m base w))) = output_root w"
  using upload_to_minio_body_shape[of en m base w] by (simp_all add: upload_to_minio_world)

lemma upload_to_minio_started:
  "UploadStart m \<in> set (trace (snd (snd (upload_to_minio en m base w))))"
  using upload_to_minio_quiet(1)[of m w en base] by (auto simp add: quiet_def)

lemma check_status_total:
  "check_firmware_update_status en m out w = Inr True \<or> check_firmware_update_status en m out w = Inr False"
  by (auto simp add: check_firmware_update_status_def split: sum.splits)

lemma check_status_needs_logs:
  "check_firmware_update_status en m out w = Inr True \<Longrightarrow>
     isfile_in (machine_node w m) ''installSetLogs.log'' \<and> isfile_in (machine_node w m) ''ciDebug.log''"
  by (auto simp add: check_firmware_update_status_def check_firmware_update_status_body_def Let_def
      split: sum.splits if_splits)

lemma remove_machine_output_quiet: "quiet w (remove_machine_output en m out w)"
  by (auto simp add: remove_machine_output_def Let_def quiet_def split: option.splits fsnode.splits)

lemma upload_from_quiet: "quiet w (snd (snd (upload_to_minio en m base w)))"
  using quiet_trans[OF quiet_log upload_to_minio_quiet(1)[of m w en base]] by simp

lemma process_machine_quiet:
  "quiet (rs_world st) (rs_world (snd (process_machine en src out st m)))"
proof -
  let ?x = "shared_run_log_extraction en m src out (output_root (rs_world st))"
  let ?w1 = "(rs_world st)\<lparr>output_root := snd ?x\<rparr>"
  have a: "quiet (rs_world st) ?w1" by (simp add: quiet_same_trace)
  have b: "quiet (rs_world st) (remove_machine_output en m out ?w1)"
    using quiet_trans[OF a remove_machine_output_quiet] .
  have c: "quiet (rs_world st) (snd (snd (upload_to_minio en m out ?w1)))"
    using quiet_trans[OF a upload_from_quiet] .
  show ?thesis
    using a b c
    by (simp add: process_machine_def Let_def split: sum.splits)
qed

lemma process_machines_quiet:
  "quiet (rs_world st) (rs_world (snd (process_machines en src out st ms)))"
proof (induction ms arbitrary: st)
  case Nil
  then show ?case by simp
next
  case (Cons m ms)
  show ?case
  proof (cases "process_machine en src out st m")
    case (Pair x st1)
    have q1: "quiet (rs_world st) (rs_world st1)"
      using process_machine_quiet[of st en src out m] Pair by simp
    show ?thesis
    proof (cases x)
      case None
      then show ?thesis using Pair quiet_trans[OF q1 Cons.IH[of st1]] by simp
    next
      case (Some e)
      then show ?thesis using Pair q1 by simp
    qed
  qed
qed

lemma write_master_signal_effect:
  "trace (snd (write_master_signal en b w)) = trace w @ [SetSignal b]"
  "output_root (snd (write_master_signal en b w)) = output_root w"
  "signal_file_raises en = None \<Longrightarrow> signal_file (snd (write_master_signal en b w)) = b"
  by (auto simp add: write_master_signal_def Let_def log_event_def split: option.splits)

lemma update_counts_quiet:
  "quiet w (snd (update_machine_status_counts en s f w))"
  "output_root (snd (update_machine_status_counts en s f w)) = output_root w"
  by (auto simp add: update_machine_status_counts_plain update_machine_status_counts_body_def
      quiet_def split: option.splits prod.splits)

lemma cleanup_quiet: "quiet w (snd (cleanup_directories en out w))"
  by (auto simp add: cleanup_directories_def Let_def quiet_def split: option.splits)

lemma write_master_signal_kept:
  "signal_file_raises en \<noteq> None \<Longrightarrow> signal_file (snd (write_master_signal en b w)) = signal_file w"
  by (auto simp add: write_master_signal_def Let_def log_event_def split: option.splits)

text \<open>The two ways in which \<open>main\<close> ends.\<close>

lemma main_ends:
  fixes en w0
  defines "st1 \<equiv> \<lparr>success_count = 0, failure_count = 0, prep_extract_failures = [],
                   rs_world = snd (cleanup_directories en ''output'' w0)\<rparr>"
  shows "(\<not> fst (main en w0) \<and> quiet w0 (rs_world (snd (main en w0)))
          \<and> \<not> (setup_venv_result en
                \<and> (case source_machines en of
                      None \<Rightarrow> False
                    | Some ms \<Rightarrow>
                        fst (process_machines en ''machines'' ''output'' st1 (sort ms)) = None
                        \<and> isdir (output_root (rs_world (snd
                              (process_machines en ''machines'' ''output'' st1 (sort ms))))))))
   \<or> (\<exists>ms st2 wa es.
         setup_venv_result en \<and> source_machines en = Some ms
         \<and> process_machines en ''machines'' ''output'' st1 (sort ms) = (None, st2)
         \<and> output_root (rs_world st2) = Some (Dir es)
         \<and> quiet w0 wa \<and> output_root wa = Some (Dir es)
         \<and> main en w0 =
             (prep_extract_failures st2 = [],
              st2\<lparr>rs_world := snd (write_master_signal en
                       (filter (\<lambda>d. is_dir (snd d)) es \<noteq> [] \<and> failure_count st2 > 0) wa)\<rparr>))"
proof (cases "setup_venv_result en")
  case False
  then show ?thesis by (simp add: main_def)
next
  case True
  have st1: "st1 = \<lparr>success_count = 0, failure_count = 0, prep_extract_failures = [],
               rs_world = w0\<rparr>\<lparr>rs_world := snd (cleanup_directories en ''output'' w0)\<rparr>"
    by (simp add: st1_def)
  have q1: "quiet w0 (rs_world st1)" using cleanup_quiet by (simp add: st1_def)
  show ?thesis
  proof (cases "source_machines en")
    case None
    then show ?thesis using True q1 by (simp add: main_def st1)
  next
    case (Some machines)
    define loop where "loop = process_machines en ''machines'' ''output'' st1 (sort machines)"
    have loop_if: "(if machines = [] then (None, st1)
                 else process_machines en ''machines'' ''output'' st1 (sort machines)) = loop"
      by (simp add: loop_def)
    obtain x st2 where loop: "loop = (x, st2)" by (cases loop)
    have q2: "quiet w0 (rs_world st2)"
      using loop quiet_trans[OF q1 process_machines_quiet[of st1 en "''machines''" "''output''" "sort machines"]]
      by (simp add: loop_def)
    define a where "a = (if success_count st2 > 0 \<or> failure_count st2 > 0
                then update_machine_status_counts en (int (success_count st2))
                       (int (failure_count st2)) (rs_world st2)
                else (None, rs_world st2))"
    have fa: "fst a = None"
      by (simp add: a_def update_machine_status_counts_plain split: prod.splits option.splits)
    have qa: "quiet w0 (snd a)"
      using q2 quiet_trans[OF q2 update_counts_quiet(1)] by (simp add: a_def)
    have ra: "output_root (snd a) = output_root (rs_world st2)"
      by (simp add: a_def update_counts_quiet(2))
    have m0: "main en w0 =
       (case loop of
          (Some e, st2) \<Rightarrow> (False, st2)
        | (None, st2) \<Rightarrow>
            (let overall_success = (prep_extract_failures st2 = []);
                 a = (if success_count st2 > 0 \<or> failure_count st2 > 0
                      then update_machine_status_counts en
                             (int (success_count st2)) (int (failure_count st2))
                             (rs_world st2)
                      else (None, rs_world st2))
             in case fst a of
                  Some e \<Rightarrow> (False, st2\<lparr>rs_world := snd a\<rparr>)
                | None \<Rightarrow>
                    (case output_root (snd a) of
                       Some (Dir es) \<Rightarrow>
                         (let output_dirs = filter (\<lambda>d. is_dir (snd d)) es;
                              output_empty = (length output_dirs = 0);
                              s = (if output_empty
                                   then write_master_signal en False (snd a)
                                   else if failure_count st2 > 0
                                   then write_master_signal en True (snd a)
                                   else write_master_signal en False (snd a))
                          in (overall_success, st2\<lparr>rs_world := snd s\<rparr>))
                     | _ \<Rightarrow> (False, st2\<lparr>rs_world := snd a\<rparr>))))"
      unfolding main_def loop_if[symmetric] st1
      by (simp only: Let_def True Some not_True_eq_False if_False option.case)
    show ?thesis
    proof (cases x)
      case (Some e)
      then show ?thesis using q2 \<open>source_machines en = Some machines\<close> loop
        by (simp add: m0 loop_def[symmetric])
    next
      case None
      have m: "main en w0 =
         (case output_root (snd a) of
            Some (Dir es) \<Rightarrow>
              (prep_extract_failures st2 = [],
               st2\<lparr>rs_world := snd (if length (filter (\<lambda>d. is_dir (snd d)) es) = 0
                                      then write_master_signal en False (snd a)
                                      else if failure_count st2 > 0
                                      then write_master_signal en True (snd a)
                                      else write_master_signal en False (snd a))\<rparr>)
          | _ \<Rightarrow> (False, st2\<lparr>rs_world := snd a\<rparr>))"
        unfolding m0 loop None
        by (simp only: prod.case option.case Let_def a_def[symmetric] fa)
      show ?thesis
      proof (cases "output_root (snd a)")
        case None
        have mm: "main en w0 = (False, st2\<lparr>rs_world := snd a\<rparr>)"
          unfolding m using None by simp
        have nd: "\<not> isdir (output_root (rs_world st2))"
          using ra[symmetric] None by (simp add: isdir_def)
        show ?thesis using mm nd qa \<open>source_machines en = Some machines\<close> loop
          by (simp add: loop_def[symmetric])
      next
        case (Some node)
        show ?thesis
        proof (cases node)
          case File
          have mm: "main en w0 = (False, st2\<lparr>rs_world := snd a\<rparr>)"
            unfolding m using Some File by simp
          have nd: "\<not> isdir (output_root (rs_world st2))"
            using ra[symmetric] Some File by (simp add: isdir_def)
          show ?thesis using mm nd qa \<open>source_machines en = Some machines\<close> loop
            by (simp add: loop_def[symmetric])
        next
          case (Dir es)
          have "main en w0 =
             (prep_extract_failures st2 = [],
              st2\<lparr>rs_world := snd (write_master_signal en
                       (filter (\<lambda>d. is_dir (snd d)) es \<noteq> [] \<and> failure_count st2 > 0) (snd a))\<rparr>)"
            unfolding m using Some Dir by simp
          moreover have "process_machines en ''machines'' ''output'' st1 (sort machines) = (None, st2)"
            using loop None by (simp add: loop_def)
          moreover have "output_root (rs_world st2) = Some (Dir es)" using ra Some Dir by simp
          ultimately show ?thesis
            using qa Some Dir True \<open>source_machines en = Some machines\<close> by blast
        qed
      qed
    qed
  qed
qed

lemma upload_returns:
  "\<exists>b. fst (upload_to_minio en m base w) = Inr b"
  by (auto simp add: upload_to_minio_plain split: prod.splits sum.splits)

lemma map_of_set_entry_other:
  "n \<noteq> m \<Longrightarrow> map_of (set_entry m new es) n = map_of es n"
  by (induction es) (auto simp add: set_entry_def split: option.splits)

lemma map_of_set_entry_None: "map_of (set_entry m None es) m = None"
  by (induction es) (auto simp add: set_entry_def)

lemma map_of_set_entry_Some:
  "map_of es m = Some t \<Longrightarrow> map_of (set_entry m (Some node) es) m = Some node"
  by (induction es) (auto simp add: set_entry_def split: if_splits)

lemma isfile_in_dir:
  "isfile_in (machine_node w m) name \<Longrightarrow>
     \<exists>es ds. output_root w = Some (Dir es) \<and> map_of es m = Some (Dir ds)"
  by (auto simp add: isfile_in_def machine_node_def split: option.splits fsnode.splits)

lemma resolve_append:
  "resolve node (cs @ ds) = (case resolve node cs of None \<Rightarrow> None | Some t \<Rightarrow> resolve t ds)"
proof (induction node cs rule: resolve.induct)
  case (1 node)
  then show ?case by simp
next
  case (2 n ns)
  then show ?case by simp
next
  case (3 es n ns)
  then show ?case by (cases "map_of es n") simp_all
qed

lemma walk_triple_is_directory:
  assumes "wf_node node" and "(d, dirs, files) \<in> set (os_walk p node)"
  shows "\<exists>cs es. d = foldl path_join p cs \<and> resolve node cs = Some (Dir es)
           \<and> dirs = map fst (filter (\<lambda>e. is_dir (snd e)) es)
           \<and> files = map fst (filter (\<lambda>e. \<not> is_dir (snd e)) es)"
  using assms
proof (induction p node arbitrary: d dirs files rule: os_walk.induct)
  case (1 dirpath)
  then show ?case by simp
next
  case (2 dirpath es)
  from "2.prems"(2) consider
      (here) "(d, dirs, files) = (dirpath, map fst (filter (\<lambda>e. is_dir (snd e)) es),
                                 map fst (filter (\<lambda>e. \<not> is_dir (snd e)) es))"
    | (below) e where "e \<in> set es" "(d, dirs, files) \<in> set (os_walk (path_join dirpath (fst e)) (snd e))"
    by auto
  then show ?case
  proof cases
    case here
    then have "d = foldl path_join dirpath [] \<and> resolve (Dir es) [] = Some (Dir es)
           \<and> dirs = map fst (filter (\<lambda>e. is_dir (snd e)) es)
           \<and> files = map fst (filter (\<lambda>e. \<not> is_dir (snd e)) es)" by simp
    then show ?thesis by blast
  next
    case below
    have wf: "wf_node (snd e)" using "2.prems"(1) below(1) by (auto simp add: list_all_iff)
    obtain cs es' where ih: "d = foldl path_join (path_join dirpath (fst e)) cs"
        "resolve (snd e) cs = Some (Dir es')"
        "dirs = map fst (filter (\<lambda>e. is_dir (snd e)) es')"
        "files = map fst (filter (\<lambda>e. \<not> is_dir (snd e)) es')"
      using "2.IH"[OF below(1) wf below(2)] by blast
    have "map_of es (fst e) = Some (snd e)"
      using "2.prems"(1) below(1) by (cases e) simp
    then have "d = foldl path_join dirpath (fst e # cs) \<and> resolve (Dir es) (fst e # cs) = Some (Dir es')"
      using ih(1,2) by simp
    then show ?thesis using ih(3,4) by blast
  qed
qed

lemma walk_files_block:
  assumes "(d, dirs, files) \<in> set (os_walk p node)"
  shows "\<exists>pre post. walk_files p node = pre @ map (\<lambda>file. (d, file)) (sort files) @ post"
proof -
  obtain ys zs where "os_walk p node = ys @ (d, dirs, files) # zs"
    using assms by (meson split_list)
  then have "walk_files p node =
      concat (map (\<lambda>t. map (\<lambda>file. (fst t, file)) (sort (snd (snd t)))) ys)
      @ map (\<lambda>file. (d, file)) (sort files)
      @ concat (map (\<lambda>t. map (\<lambda>file. (fst t, file)) (sort (snd (snd t)))) zs)"
    by (simp add: walk_files_def)
  then show ?thesis by blast
qed

lemma walk_files_in_triple:
  "(d, f) \<in> set (walk_files p node) \<longleftrightarrow>
     (\<exists>dirs files. (d, dirs, files) \<in> set (os_walk p node) \<and> f \<in> set files)"
proof
  assume "(d, f) \<in> set (walk_files p node)"
  then obtain t where "t \<in> set (os_walk p node)" "d = fst t" "f \<in> set (snd (snd t))"
    by (auto simp add: walk_files_def simp del: os_walk.simps)
  then have "(d, fst (snd t), snd (snd t)) \<in> set (os_walk p node) \<and> f \<in> set (snd (snd t))"
    by simp
  then show "\<exists>dirs files. (d, dirs, files) \<in> set (os_walk p node) \<and> f \<in> set files"
    by blast
next
  assume "\<exists>dirs files. (d, dirs, files) \<in> set (os_walk p node) \<and> f \<in> set files"
  then obtain dirs files where t: "(d, dirs, files) \<in> set (os_walk p node)" "f \<in> set files"
    by blast
  obtain pre post where "walk_files p node = pre @ map (\<lambda>file. (d, file)) (sort files) @ post"
    using walk_files_block[OF t(1)] by blast
  then show "(d, f) \<in> set (walk_files p node)"
    using t(2) by simp
qed

lemma walk_files_are_files:
  assumes "wf_node node" and "(d, f) \<in> set (walk_files p node)"
  shows "\<exists>cs. d = foldl path_join p cs \<and> resolve node (cs @ [f]) = Some File"
proof -
  obtain dirs files where t: "(d, dirs, files) \<in> set (os_walk p node)" "f \<in> set files"
    using assms(2) walk_files_in_triple by blast
  obtain cs es where c: "d = foldl path_join p cs" "resolve node cs = Some (Dir es)"
      "files = map fst (filter (\<lambda>e. \<not> is_dir (snd e)) es)"
    using walk_triple_is_directory[OF assms(1) t(1)] by blast
  have "wf_node (Dir es)" using assms(1) c(2)
  proof (induction node cs rule: resolve.induct)
    case (1 node)
    then show ?case by simp
  next
    case (2 n ns)
    then show ?case by simp
  next
    case (3 es0 n ns)
    then obtain t where t: "map_of es0 n = Some t" "resolve t ns = Some (Dir es)"
      by (auto split: option.splits)
    have "(n, t) \<in> set es0" using t(1) by (rule map_of_SomeD)
    then have "wf_node t" using "3.prems"(1) by (auto simp add: list_all_iff)
    then show ?case using "3.IH"[OF t(1)] t(2) by simp
  qed
  then have dist: "distinct (map fst es)" by simp
  obtain t where tt: "(f, t) \<in> set es" "\<not> is_dir t" using t(2) c(3) by auto
  then have "t = File" by (cases t) simp_all
  then have "map_of es f = Some File" using dist tt(1) by simp
  then have "resolve node (cs @ [f]) = Some File"
    by (simp add: resolve_append c(2))
  then show ?thesis using c(1) by blast
qed

lemma files_are_walked:
  "resolve node (cs @ [f]) = Some File \<Longrightarrow> (foldl path_join p cs, f) \<in> set (walk_files p node)"
proof (induction cs arbitrary: p node)
  case Nil
  then obtain es where n: "node = Dir es" "map_of es f = Some File"
    by (cases node) (auto split: option.splits)
  have "(f, File) \<in> set es" using n(2) by (rule map_of_SomeD)
  then have "f \<in> set (map fst (filter (\<lambda>e. \<not> is_dir (snd e)) es))" by force
  moreover have "(p, map fst (filter (\<lambda>e. is_dir (snd e)) es),
                  map fst (filter (\<lambda>e. \<not> is_dir (snd e)) es)) \<in> set (os_walk p (Dir es))"
    by simp
  ultimately show ?case unfolding walk_files_in_triple n(1) foldl_Nil by blast
next
  case (Cons c cs)
  then obtain es t where n: "node = Dir es" "map_of es c = Some t" "resolve t (cs @ [f]) = Some File"
    by (cases node) (auto split: option.splits)
  have e: "(c, t) \<in> set es" using n(2) by (rule map_of_SomeD)
  have "(foldl path_join (path_join p c) cs, f) \<in> set (walk_files (path_join p c) t)"
    using Cons.IH[OF n(3)] .
  then obtain dirs files where
    "(foldl path_join (path_join p c) cs, dirs, files) \<in> set (os_walk (path_join p c) t)" "f \<in> set files"
    unfolding walk_files_in_triple by blast
  then have "(foldl path_join (path_join p c) cs, dirs, files) \<in> set (os_walk p (Dir es))"
    using e by (simp del: foldl_Cons) (metis fst_conv snd_conv)
  then show ?case unfolding walk_files_in_triple n(1) foldl_Cons using \<open>f \<in> set files\<close> by blast
qed


text \<open>The order of the files of a directory: its own files, sorted, then its entries in turn.\<close>

lemma walk_files_Dir:
  "walk_files p (Dir es) =
     map (\<lambda>file. (p, file)) (sort (map fst (filter (\<lambda>e. \<not> is_dir (snd e)) es)))
     @ concat (map (\<lambda>e. walk_files (path_join p (fst e)) (snd e)) es)"
proof -
  have "concat (concat (map (\<lambda>x. map f (g x)) xs)) = concat (map (\<lambda>e. concat (map f (g e))) xs)"
    for f :: "'b \<Rightarrow> 'c list" and g :: "'a \<Rightarrow> 'b list" and xs
    by (induction xs) simp_all
  then show ?thesis by (simp add: walk_files_def map_concat comp_def)
qed

text \<open>The output directory of a machine that is classified.\<close>

lemma classified_machine_output:
  assumes "shared_prepare_machine en (path_join src m) = Inr True"
    and "shared_run_log_extraction en m src out (output_root (rs_world st)) = (Inr True, fs1)"
  shows "let w1 = (rs_world st)\<lparr>output_root := fs1\<rparr>;
             st' = snd (process_machine en src out st m);
             ok = (check_firmware_update_status en m out w1 = Inr True)
         in ((machine_node w1 m \<noteq> None \<and> machine_node (rs_world st') m = None)
              \<longleftrightarrow> (ok \<and> rmtree_raises en (path_join out m) = None))
            \<and> (ok \<longrightarrow> success_count st' = success_count st + 1
                      \<and> machine_node (rs_world st') m =
                          (case rmtree_raises en (path_join out m) of
                             None \<Rightarrow> None
                           | Some er \<Rightarrow> Some (Dir (snd er))))
            \<and> (\<not> ok \<longrightarrow> failure_count st' = failure_count st + 1
                        \<and> output_root (rs_world st') = fs1)
            \<and> (\<forall>n. n \<noteq> m \<longrightarrow> machine_node (rs_world st') n = machine_node w1 n)"
proof -
  let ?w1 = "(rs_world st)\<lparr>output_root := fs1\<rparr>"
  let ?st' = "snd (process_machine en src out st m)"
  show ?thesis
  proof (cases "check_firmware_update_status en m out ?w1 = Inr True")
    case True
    obtain es ds where d: "output_root ?w1 = Some (Dir es)" "map_of es m = Some (Dir ds)"
      using check_status_needs_logs[OF True] isfile_in_dir by blast
    have fs1: "fs1 = Some (Dir es)" using d(1) by simp
    have st': "?st' = st\<lparr>success_count := success_count st + 1,
                         rs_world := remove_machine_output en m out ?w1\<rparr>"
      using assms True by (simp add: process_machine_def Let_def)
    have rm: "output_root (remove_machine_output en m out ?w1)
              = Some (Dir (set_entry m (snd (rmtree en (path_join out m) (Dir ds))) es))"
      using d by (simp add: remove_machine_output_def Let_def fs1)
    have node: "machine_node (remove_machine_output en m out ?w1) n
                = map_of (set_entry m (snd (rmtree en (path_join out m) (Dir ds))) es) n" for n
      using rm by (simp add: machine_node_def)
    have before: "machine_node ?w1 n = map_of es n" for n
      by (simp add: machine_node_def fs1)
    show ?thesis
      using True d(2)
      by (auto simp add: Let_def st' node before rmtree_def map_of_set_entry_other
          map_of_set_entry_None map_of_set_entry_Some split: option.splits)
  next
    case False
    then have c: "check_firmware_update_status en m out ?w1 = Inr False"
      using check_status_total[of en m out ?w1] by blast
    obtain b where u: "fst (upload_to_minio en m out ?w1) = Inr b"
      using upload_returns by blast
    have w: "rs_world ?st' = snd (snd (upload_to_minio en m out ?w1))"
        and f: "failure_count ?st' = failure_count st + 1"
      using assms c u by (simp_all add: process_machine_def Let_def)
    have root: "output_root (rs_world ?st') = fs1"
      using upload_to_minio_quiet(2)[of en m out ?w1] w by simp
    have node: "machine_node (rs_world ?st') n = machine_node ?w1 n" for n
      using root by (simp add: machine_node_def)
    show ?thesis
      using False f root node by (auto simp add: Let_def)
  qed
qed

section \<open>Results\<close>

subsection \<open>Classification with a missing log\<close>

text \<open>
  C1, as amended. For a machine that passed preparation and extraction: if
  \<open>installSetLogs.log\<close> or \<open>ciDebug.log\<close> is missing from the machine's output
  directory, the classification returns \<open>False\<close>, the update is counted as failed, and
  the run goes on to call the upload for that machine, as for every failed update.
\<close>

theorem missing_log_is_failure_with_upload:
  assumes "shared_prepare_machine en (path_join src m) = Inr True"
    and "shared_run_log_extraction en m src out (output_root (rs_world st)) = (Inr True, fs1)"
    and "\<not> isfile_in (machine_node ((rs_world st)\<lparr>output_root := fs1\<rparr>) m) ''installSetLogs.log''
         \<or> \<not> isfile_in (machine_node ((rs_world st)\<lparr>output_root := fs1\<rparr>) m) ''ciDebug.log''"
  shows "let w1 = (rs_world st)\<lparr>output_root := fs1\<rparr>;
             r = process_machine en src out st m;
             u = upload_to_minio en m out w1
         in check_firmware_update_status en m out w1 = Inr False
            \<and> fst r = None
            \<and> failure_count (snd r) = failure_count st + 1
            \<and> success_count (snd r) = success_count st
            \<and> rs_world (snd r) = snd (snd u)
            \<and> UploadStart m \<in> set (trace (rs_world (snd r)))"
proof -
  let ?w1 = "(rs_world st)\<lparr>output_root := fs1\<rparr>"
  have c: "check_firmware_update_status en m out ?w1 = Inr False"
    using assms(3) check_status_needs_logs[of en m out ?w1] check_status_total[of en m out ?w1]
    by blast
  obtain b where u: "fst (upload_to_minio en m out ?w1) = Inr b"
    using upload_returns by blast
  have r: "fst (process_machine en src out st m) = None
           \<and> failure_count (snd (process_machine en src out st m)) = failure_count st + 1
           \<and> success_count (snd (process_machine en src out st m)) = success_count st
           \<and> rs_world (snd (process_machine en src out st m)) = snd (snd (upload_to_minio en m out ?w1))"
    using assms(1,2) c u by (simp add: process_machine_def Let_def)
  show ?thesis
    using c r upload_to_minio_started[of m en out ?w1] by (simp add: Let_def)
qed

theorem missing_log_is_failure_with_upload_witness:
  "shared_prepare_machine env_missing_log (path_join ''machines'' ''m'') = Inr True
   \<and> shared_run_log_extraction env_missing_log ''m'' ''machines'' ''output''
         (output_root (rs_world state0))
       = (Inr True, Some (Dir [(''m'', Dir [(''ciDebug.log'', File)])]))
   \<and> \<not> isfile_in (machine_node ((rs_world state0)
                \<lparr>output_root := Some (Dir [(''m'', Dir [(''ciDebug.log'', File)])])\<rparr>) ''m'')
            ''installSetLogs.log''
   \<and> failure_count (snd (process_machine env_missing_log ''machines'' ''output'' state0 ''m'')) = 1
   \<and> UploadStart ''m''
       \<in> set (trace (rs_world (snd (process_machine env_missing_log ''machines'' ''output''
                                      state0 ''m''))))"
proof -
  have h1: "shared_prepare_machine env_missing_log (path_join ''machines'' ''m'') = Inr True"
    by (simp add: env_missing_log_def env_ok_def)
  have h2: "shared_run_log_extraction env_missing_log ''m'' ''machines'' ''output''
              (output_root (rs_world state0))
            = (Inr True, Some (Dir [(''m'', Dir [(''ciDebug.log'', File)])]))"
    by (simp add: env_missing_log_def env_ok_def)
  have h3: "\<not> isfile_in (machine_node ((rs_world state0)
                \<lparr>output_root := Some (Dir [(''m'', Dir [(''ciDebug.log'', File)])])\<rparr>) ''m'')
            ''installSetLogs.log''"
    by (simp add: isfile_in_def machine_node_def)
  have f0: "failure_count state0 = 0" by (simp add: state0_def)
  note t = missing_log_is_failure_with_upload[OF h1 h2 disjI1[OF h3], unfolded Let_def]
  have c: "failure_count (snd (process_machine env_missing_log ''machines'' ''output''
                                 state0 ''m'')) = 1"
    using conjunct1[OF conjunct2[OF conjunct2[OF t]]] f0 by simp
  have u: "UploadStart ''m''
       \<in> set (trace (rs_world (snd (process_machine env_missing_log ''machines'' ''output''
                                      state0 ''m''))))"
    by (rule conjunct2[OF conjunct2[OF conjunct2[OF conjunct2[OF conjunct2[OF t]]]]])
  show ?thesis
    by (intro conjI) (rule h1, rule h2, rule h3, rule c, rule u)
qed

text \<open>
  The claim as stated fails: in a run over one machine whose extraction leaves only
  \<open>ciDebug.log\<close>, the one failure is counted and the file is uploaded.
\<close>

theorem missing_log_still_uploads:
  "\<not> isfile_in (machine_node (rs_world (snd (main env_missing_log world0))) ''m'')
       ''installSetLogs.log''
   \<and> failure_count (snd (main env_missing_log world0)) = 1
   \<and> trace (rs_world (snd (main env_missing_log world0))) =
       [UploadStart ''m'', BucketExists, MakeBucket,
        FPut ''m/ciDebug.log'' ''output/m/ciDebug.log'', RecordCounts 0 1, SetSignal True]
   \<and> objects (rs_world (snd (main env_missing_log world0))) = [''m/ciDebug.log'']"
  by code_simp

subsection \<open>Success threshold of an upload\<close>



subsection \<open>Name sanitizer\<close>

text \<open>
  C3. The sanitizer returns a string for every input string and maps the empty string to
  the empty string, but it is not idempotent: on \<open>ab\<close> it returns \<open>abz\<close>, and on
  \<open>abz\<close> it returns \<open>abzz\<close>.
\<close>

theorem sanitize_name_not_idempotent:
  "sanitize_name [] = [] \<and> sanitize_name ''ab'' = ''abz''
   \<and> sanitize_name (sanitize_name ''ab'') = ''abzz''
   \<and> sanitize_name (sanitize_name ''ab'') \<noteq> sanitize_name ''ab''"
  by code_simp

subsection \<open>Removal of a machine's output directory\<close>

text \<open>
  C4, as amended. For every machine processed in a run, the machine's output directory is
  removed from the output root if and only if the update was classified as successful and
  the removal itself did not fail; when the removal fails, the error is logged and what
  the removal left stays in place. A machine that is not classified as successful (failed
  preparation or extraction, or an update classified as failed, uploaded or not) keeps
  the output root as the extraction left it. The directories of the other machines are
  not touched. Here \<open>w1\<close> is the world in which the machine is classified: the one the
  extraction leaves.
\<close>

theorem output_dir_removed_iff_success_and_rmtree_ok:
  "let prep = shared_prepare_machine en (path_join src m);
       x = shared_run_log_extraction en m src out (output_root (rs_world st));
       w1 = (if prep = Inr True then (rs_world st)\<lparr>output_root := snd x\<rparr> else rs_world st);
       st' = snd (process_machine en src out st m);
       ok = (prep = Inr True \<and> fst x = Inr True
             \<and> check_firmware_update_status en m out w1 = Inr True)
   in ((machine_node w1 m \<noteq> None \<and> machine_node (rs_world st') m = None)
        \<longleftrightarrow> (ok \<and> rmtree_raises en (path_join out m) = None))
      \<and> (ok \<longrightarrow> success_count st' = success_count st + 1
                \<and> machine_node (rs_world st') m =
                    (case rmtree_raises en (path_join out m) of
                       None \<Rightarrow> None
                     | Some er \<Rightarrow> Some (Dir (snd er))))
      \<and> (\<not> ok \<longrightarrow> success_count st' = success_count st
                  \<and> output_root (rs_world st') = output_root w1)
      \<and> (\<forall>n. n \<noteq> m \<longrightarrow> machine_node (rs_world st') n = machine_node w1 n)"
proof -
  define prep where "prep = shared_prepare_machine en (path_join src m)"
  define x where "x = shared_run_log_extraction en m src out (output_root (rs_world st))"
  consider (no_prep) "prep \<noteq> Inr True"
    | (no_extract) "prep = Inr True" "fst x \<noteq> Inr True"
    | (classified) "prep = Inr True" "fst x = Inr True"
    by blast
  then show ?thesis
  proof cases
    case no_prep
    then have "rs_world (snd (process_machine en src out st m)) = rs_world st
               \<and> success_count (snd (process_machine en src out st m)) = success_count st"
      by (cases prep) (auto simp add: process_machine_def Let_def prep_def)
    then show ?thesis using no_prep
      by (auto simp add: Let_def prep_def[symmetric] x_def[symmetric])
  next
    case no_extract
    then have "rs_world (snd (process_machine en src out st m))
                 = (rs_world st)\<lparr>output_root := snd x\<rparr>
               \<and> success_count (snd (process_machine en src out st m)) = success_count st"
      by (cases "fst x")
         (auto simp add: process_machine_def Let_def prep_def x_def)
    then show ?thesis using no_extract
      by (auto simp add: Let_def prep_def[symmetric] x_def[symmetric])
  next
    case classified
    have p: "shared_prepare_machine en (path_join src m) = Inr True"
      using classified(1) by (simp add: prep_def)
    have e: "shared_run_log_extraction en m src out (output_root (rs_world st))
             = (Inr True, snd x)"
      using classified(2) by (simp add: x_def prod_eq_iff)
    note h = classified_machine_output[OF p e, unfolded Let_def]
    have s: "check_firmware_update_status en m out ((rs_world st)\<lparr>output_root := snd x\<rparr>)
               \<noteq> Inr True
             \<Longrightarrow> success_count (snd (process_machine en src out st m)) = success_count st"
      using p e check_status_total[of en m out "(rs_world st)\<lparr>output_root := snd x\<rparr>"]
        upload_returns[of en m out "(rs_world st)\<lparr>output_root := snd x\<rparr>"]
      by (auto simp add: process_machine_def Let_def)
    show ?thesis
      using h s classified
      by (simp add: Let_def prep_def[symmetric] x_def[symmetric])
  qed
qed

theorem output_dir_removed_iff_success_and_rmtree_ok_witness:
  "shared_prepare_machine env_ok (path_join ''machines'' ''m'') = Inr True
   \<and> shared_run_log_extraction env_ok ''m'' ''machines'' ''output'' (output_root (rs_world state0))
       = (Inr True, Some (Dir [(''m'', logs_ok)]))
   \<and> check_firmware_update_status env_ok ''m'' ''output''
         ((rs_world state0)\<lparr>output_root := Some (Dir [(''m'', logs_ok)])\<rparr>) = Inr True
   \<and> success_count (snd (process_machine env_ok ''machines'' ''output'' state0 ''m'')) = 1
   \<and> machine_node (rs_world (snd (process_machine env_ok ''machines'' ''output'' state0 ''m'')))
         ''m'' = None"
proof -
  have h1: "shared_prepare_machine env_ok (path_join ''machines'' ''m'') = Inr True"
    by (simp add: env_ok_def)
  have h2: "shared_run_log_extraction env_ok ''m'' ''machines'' ''output''
              (output_root (rs_world state0))
            = (Inr True, Some (Dir [(''m'', logs_ok)]))"
    by (simp add: env_ok_def)
  have ok: "check_firmware_update_status env_ok ''m'' ''output''
              ((rs_world state0)\<lparr>output_root := Some (Dir [(''m'', logs_ok)])\<rparr>) = Inr True"
    by code_simp
  have rm: "rmtree_raises env_ok (path_join ''output'' ''m'') = None"
    by (simp add: env_ok_def)
  have s0: "success_count state0 = 0" by (simp add: state0_def)
  note t = output_dir_removed_iff_success_and_rmtree_ok[of env_ok "''machines''" "''m''"
             "''output''" state0, unfolded Let_def h1 h2 fst_conv snd_conv if_True]
  have c: "success_count (snd (process_machine env_ok ''machines'' ''output'' state0 ''m'')) = 1"
    using conjunct1[OF conjunct2[OF t]] ok s0 by simp
  have g: "machine_node (rs_world (snd (process_machine env_ok ''machines'' ''output''
                                          state0 ''m''))) ''m'' = None"
    using conjunct1[OF conjunct2[OF t]] ok rm by simp
  show ?thesis
    by (intro conjI) (rule h1, rule h2, rule ok, rule c, rule g)
qed

text \<open>
  The claim as stated fails: when the removal fails, the update is classified and counted
  as successful and the machine's output directory stays in the output root.
\<close>

theorem rmtree_failure_keeps_successful_output:
  "check_firmware_update_status env_rmtree_fails ''m'' ''output''
     (world0\<lparr>output_root := Some (Dir [(''m'', logs_ok)])\<rparr>) = Inr True
   \<and> success_count (snd (main env_rmtree_fails world0)) = 1
   \<and> failure_count (snd (main env_rmtree_fails world0)) = 0
   \<and> machine_node (rs_world (snd (main env_rmtree_fails world0))) ''m''
       = Some (Dir [(''x.txt'', File)])"
  by code_simp

subsection \<open>Downstream trigger\<close>

text \<open>
  C5, as amended. On a console that shows every text, a run reaches the trigger decision
  when the environment setup succeeds, the source root is a directory, no exception leaves
  the loop over the machines and the output root can be listed. Every such run, whatever it returns, calls
  \<open>write_master_signal\<close> exactly once, as its last recorded action, with \<open>False\<close>
  if the output root holds no subdirectory, whatever the number of failures counted, and
  otherwise with \<open>True\<close> exactly when the failure count is positive; the failure count
  and the output root are those that the loop left. The signal file then has that value,
  unless the file operation fails, and then it is as it was before the run. Such a run
  returns \<open>True\<close> exactly when no preparation, extraction or upload failed. Every other
  run (failed environment setup, missing source directory, an exception that reaches the
  outer handler, an output root that cannot be listed) never calls
  \<open>write_master_signal\<close>, leaves the signal file as it was and returns \<open>False\<close>. No
  run changes the events recorded before it.
\<close>

theorem trigger_decision:
  "let r = main en w0; st = snd r; w = rs_world st;
       new = drop (length (trace w0)) (trace w);
       output_dirs = (case output_root w of
                        Some (Dir es) \<Rightarrow> filter (\<lambda>d. is_dir (snd d)) es
                      | _ \<Rightarrow> []);
       b = (output_dirs \<noteq> [] \<and> failure_count st > 0);
       st1 = \<lparr>success_count = 0, failure_count = 0, prep_extract_failures = [],
               rs_world = snd (cleanup_directories en ''output'' w0)\<rparr>;
       loop = (\<lambda>ms. process_machines en ''machines'' ''output'' st1 (sort ms));
       reached = (setup_venv_result en
                  \<and> (case source_machines en of
                        None \<Rightarrow> False
                      | Some ms \<Rightarrow>
                          fst (loop ms) = None
                          \<and> isdir (output_root (rs_world (snd (loop ms))))))
   in take (length (trace w0)) (trace w) = trace w0
      \<and> (\<forall>c. SetSignal c \<in> set new \<longrightarrow>
            c = b
            \<and> filter is_signal new = [SetSignal c]
            \<and> last new = SetSignal c
            \<and> (signal_file_raises en = None \<longrightarrow> signal_file w = c))
      \<and> (fst r \<longrightarrow> (\<exists>c. SetSignal c \<in> set new))
      \<and> (reached \<longrightarrow>
            filter is_signal new = [SetSignal b]
            \<and> last new = SetSignal b
            \<and> (signal_file_raises en = None \<longrightarrow> signal_file w = b)
            \<and> (signal_file_raises en \<noteq> None \<longrightarrow> signal_file w = signal_file w0)
            \<and> fst r = (prep_extract_failures st = [])
            \<and> (\<forall>ms. source_machines en = Some ms \<longrightarrow>
                  failure_count st = failure_count (snd (loop ms))
                  \<and> prep_extract_failures st = prep_extract_failures (snd (loop ms))
                  \<and> output_root w = output_root (rs_world (snd (loop ms)))))
      \<and> (\<not> reached \<longrightarrow>
            filter is_signal new = [] \<and> signal_file w = signal_file w0 \<and> \<not> fst r)"
proof -
  let ?st1 = "\<lparr>success_count = 0, failure_count = 0, prep_extract_failures = [],
               rs_world = snd (cleanup_directories en ''output'' w0)\<rparr>"
  let ?loop = "\<lambda>ms. process_machines en ''machines'' ''output'' ?st1 (sort ms)"
  let ?reached = "setup_venv_result en
                  \<and> (case source_machines en of
                        None \<Rightarrow> False
                      | Some ms \<Rightarrow>
                          fst (?loop ms) = None
                          \<and> isdir (output_root (rs_world (snd (?loop ms)))))"
  consider (abort) "\<not> fst (main en w0)" "quiet w0 (rs_world (snd (main en w0)))" "\<not> ?reached"
    | (finished) ms st2 wa es where "setup_venv_result en" "source_machines en = Some ms"
        "?loop ms = (None, st2)" "output_root (rs_world st2) = Some (Dir es)"
        "quiet w0 wa" "output_root wa = Some (Dir es)"
        "main en w0 =
             (prep_extract_failures st2 = [],
              st2\<lparr>rs_world := snd (write_master_signal en
                       (filter (\<lambda>d. is_dir (snd d)) es \<noteq> [] \<and> failure_count st2 > 0) wa)\<rparr>)"
    using main_ends[of en w0] by blast
  then show ?thesis
  proof cases
    case abort
    obtain evs where evs: "trace (rs_world (snd (main en w0))) = trace w0 @ evs"
      "\<not> list_ex is_signal evs" "signal_file (rs_world (snd (main en w0))) = signal_file w0"
      using abort(2) by (auto simp add: quiet_def)
    have f: "filter is_signal evs = []" using evs(2) by (simp add: list_ex_iff filter_empty_conv)
    have nosig: "SetSignal c \<notin> set evs" for c using evs(2) by (auto simp add: list_ex_iff)
    show ?thesis
      unfolding Let_def using abort(1) abort(3) by (simp add: evs(1) evs(3) f nosig)
  next
    case finished
    let ?b = "filter (\<lambda>d. is_dir (snd d)) es \<noteq> [] \<and> failure_count st2 > 0"
    obtain evs where evs: "trace wa = trace w0 @ evs" "\<not> list_ex is_signal evs"
      "signal_file wa = signal_file w0"
      using finished(5) by (auto simp add: quiet_def)
    have f: "filter is_signal evs = []" using evs(2) by (simp add: list_ex_iff filter_empty_conv)
    have nosig: "SetSignal c \<notin> set evs" for c using evs(2) by (auto simp add: list_ex_iff)
    have r: "?reached" using finished(1-4) by (simp add: isdir_def)
    have k: "signal_file_raises en \<noteq> None \<Longrightarrow>
               signal_file (snd (write_master_signal en ?b wa)) = signal_file w0"
      using write_master_signal_kept[of en ?b wa] evs(3) by simp
    have s: "signal_file_raises en = None \<Longrightarrow>
               signal_file (snd (write_master_signal en ?b wa)) = ?b"
      by (rule write_master_signal_effect(3))
    have l: "\<And>ms'. source_machines en = Some ms' \<Longrightarrow> ?loop ms' = (None, st2)"
      using finished(2,3) by simp
    show ?thesis
      unfolding Let_def using r k s l finished(4)
      by (auto simp add: finished(7) finished(6) evs(1) f nosig write_master_signal_effect(1,2))
  qed
qed

text \<open>
  A run whose only machine has a failed update and a failed upload keeps the machine's
  output directory, returns \<open>False\<close> and calls \<open>write_master_signal(True)\<close>; a run
  that counts one failure and ends with an output root without subdirectories calls
  \<open>write_master_signal(False)\<close>; a run whose environment setup fails leaves the signal
  file of an earlier run in place.
\<close>

theorem trigger_decision_witness:
  "(setup_venv_result env_upload_fails
    \<and> (case source_machines env_upload_fails of
          None \<Rightarrow> False
        | Some ms \<Rightarrow>
            fst (process_machines env_upload_fails ''machines'' ''output''
                   \<lparr>success_count = 0, failure_count = 0, prep_extract_failures = [],
                    rs_world = snd (cleanup_directories env_upload_fails ''output'' world0)\<rparr>
                   (sort ms)) = None
            \<and> isdir (output_root (rs_world (snd
                 (process_machines env_upload_fails ''machines'' ''output''
                    \<lparr>success_count = 0, failure_count = 0, prep_extract_failures = [],
                     rs_world = snd (cleanup_directories env_upload_fails ''output'' world0)\<rparr>
                    (sort ms)))))))
   \<and> \<not> fst (main env_upload_fails world0)
   \<and> filter is_signal (drop (length (trace world0))
                          (trace (rs_world (snd (main env_upload_fails world0)))))
       = [SetSignal True]
   \<and> last (drop (length (trace world0)) (trace (rs_world (snd (main env_upload_fails world0)))))
       = SetSignal True
   \<and> signal_file (rs_world (snd (main env_upload_fails world0))) = True
   \<and> failure_count (snd (main env_no_output world0)) = 1
   \<and> output_root (rs_world (snd (main env_no_output world0))) = Some (Dir [])
   \<and> SetSignal False \<in> set (drop (length (trace world0))
                                 (trace (rs_world (snd (main env_no_output world0)))))
   \<and> last (drop (length (trace world0)) (trace (rs_world (snd (main env_no_output world0)))))
       = SetSignal False
   \<and> signal_file (rs_world (snd (main env_no_output world0))) = False
   \<and> \<not> setup_venv_result env_no_venv
   \<and> filter is_signal (drop (length (trace world_stale))
                          (trace (rs_world (snd (main env_no_venv world_stale))))) = []
   \<and> signal_file (rs_world (snd (main env_no_venv world_stale))) = signal_file world_stale
   \<and> \<not> fst (main env_no_venv world_stale)"
proof -
  have reached:
    "setup_venv_result env_upload_fails
     \<and> (case source_machines env_upload_fails of
           None \<Rightarrow> False
         | Some ms \<Rightarrow>
             fst (process_machines env_upload_fails ''machines'' ''output''
                    \<lparr>success_count = 0, failure_count = 0, prep_extract_failures = [],
                     rs_world = snd (cleanup_directories env_upload_fails ''output'' world0)\<rparr>
                    (sort ms)) = None
             \<and> isdir (output_root (rs_world (snd
                  (process_machines env_upload_fails ''machines'' ''output''
                     \<lparr>success_count = 0, failure_count = 0, prep_extract_failures = [],
                      rs_world = snd (cleanup_directories env_upload_fails ''output'' world0)\<rparr>
                     (sort ms))))))"
    by code_simp
  have c: "failure_count (snd (main env_upload_fails world0)) = 1" by code_simp
  have o: "output_root (rs_world (snd (main env_upload_fails world0)))
           = Some (Dir [(''m'', Dir [(''ciDebug.log'', File)])])"
    by code_simp
  have p: "prep_extract_failures (snd (main env_upload_fails world0)) = [''m (upload)'']"
    by code_simp
  have s: "signal_file_raises env_upload_fails = None"
    by (simp add: env_upload_fails_def env_missing_log_def env_ok_def)
  note t = trigger_decision[of env_upload_fails world0, unfolded Let_def]
  note u = mp[OF conjunct1[OF conjunct2[OF conjunct2[OF conjunct2[OF t]]]] reached]
  have f: "filter is_signal (drop (length (trace world0))
                               (trace (rs_world (snd (main env_upload_fails world0)))))
           = [SetSignal True]"
    using conjunct1[OF u] o c by simp
  have l: "last (drop (length (trace world0))
                  (trace (rs_world (snd (main env_upload_fails world0))))) = SetSignal True"
    using conjunct1[OF conjunct2[OF u]] o c by simp
  have g: "signal_file (rs_world (snd (main env_upload_fails world0))) = True"
    using mp[OF conjunct1[OF conjunct2[OF conjunct2[OF u]]] s] o c by simp
  have r: "\<not> fst (main env_upload_fails world0)"
    using conjunct1[OF conjunct2[OF conjunct2[OF conjunct2[OF conjunct2[OF u]]]]] p by simp
  have c2: "failure_count (snd (main env_no_output world0)) = 1" by code_simp
  have o2: "output_root (rs_world (snd (main env_no_output world0))) = Some (Dir [])"
    by code_simp
  have m2: "SetSignal False \<in> set (drop (length (trace world0))
                                 (trace (rs_world (snd (main env_no_output world0)))))"
    by code_simp
  have s2: "signal_file_raises env_no_output = None"
    by (simp add: env_no_output_def env_ok_def)
  note t2 = trigger_decision[of env_no_output world0, unfolded Let_def]
  note u2 = mp[OF spec[OF conjunct1[OF conjunct2[OF t2]], of False] m2]
  have l2: "last (drop (length (trace world0))
                  (trace (rs_world (snd (main env_no_output world0))))) = SetSignal False"
    by (rule conjunct1[OF conjunct2[OF conjunct2[OF u2]]])
  have g2: "signal_file (rs_world (snd (main env_no_output world0))) = False"
    by (rule mp[OF conjunct2[OF conjunct2[OF conjunct2[OF u2]]] s2])
  have v: "\<not> setup_venv_result env_no_venv"
    by (simp add: env_no_venv_def env_ok_def)
  have nr: "\<not> (setup_venv_result env_no_venv
             \<and> (case source_machines env_no_venv of
                   None \<Rightarrow> False
                 | Some ms \<Rightarrow>
                     fst (process_machines env_no_venv ''machines'' ''output''
                            \<lparr>success_count = 0, failure_count = 0, prep_extract_failures = [],
                             rs_world = snd (cleanup_directories env_no_venv ''output'' world_stale)\<rparr>
                            (sort ms)) = None
                     \<and> isdir (output_root (rs_world (snd
                          (process_machines env_no_venv ''machines'' ''output''
                             \<lparr>success_count = 0, failure_count = 0, prep_extract_failures = [],
                              rs_world = snd (cleanup_directories env_no_venv ''output'' world_stale)\<rparr>
                             (sort ms)))))))"
    using v by simp
  note t3 = trigger_decision[of env_no_venv world_stale, unfolded Let_def]
  note u3 = mp[OF conjunct2[OF conjunct2[OF conjunct2[OF conjunct2[OF t3]]]] nr]
  have a1: "filter is_signal (drop (length (trace world_stale))
                          (trace (rs_world (snd (main env_no_venv world_stale))))) = []"
    by (rule conjunct1[OF u3])
  have a2: "signal_file (rs_world (snd (main env_no_venv world_stale))) = signal_file world_stale"
    by (rule conjunct1[OF conjunct2[OF u3]])
  have a3: "\<not> fst (main env_no_venv world_stale)"
    by (rule conjunct2[OF conjunct2[OF u3]])
  show ?thesis
    by (intro conjI) (rule reached[THEN conjunct1], rule reached[THEN conjunct2],
        rule r, rule f, rule l, rule g, rule c2, rule o2, rule m2, rule l2, rule g2,
        rule v, rule a1, rule a2, rule a3)
qed

text \<open>
  The claim as stated fails: a run whose environment setup fails ends with an output root
  without subdirectories and with the signal file of an earlier run still in place; it
  never calls \<open>write_master_signal\<close>.
\<close>

theorem aborted_run_leaves_trigger:
  "fst (main env_no_venv world_stale) = False
   \<and> output_root (rs_world (snd (main env_no_venv world_stale))) = Some (Dir [])
   \<and> signal_file (rs_world (snd (main env_no_venv world_stale))) = True
   \<and> trace (rs_world (snd (main env_no_venv world_stale))) = []"
  by code_simp

subsection \<open>Retries of one file\<close>

text \<open>
  C6. For every file of a batch the upload is attempted at most three times; a failed
  first or second attempt is followed by a retry warning and a delay of one second, a
  failed third attempt by no delay; when all three attempts fail, the file is counted as
  failed, and otherwise as uploaded. In both cases the loop goes on: the batch is the
  files taken in turn, each from the state that the file before it left, whatever happened
  to that file; so after a batch every file has been attempted at least once and at most
  three times and has been counted once, as uploaded or as failed. On a console that
  shows every text this is the loop that \<open>upload_to_minio\<close> runs. The attempts are the
  calls of \<open>fput_object\<close>, numbered from the count \<open>c\<close> of earlier calls.
\<close>

theorem upload_retry_policy:
  "let c = fput_calls w;
       r = upload_file en pfx out (st, w) (d, f);
       a = FPut (pfx @ ''/'' @ replace_char (CHR 0x5C) (CHR ''/'') (relpath (path_join d f) out))
                (path_join d f);
       b = upload_files en pfx out files (st, w)
   in trace (snd r) = trace w @
        (if fput_object_raises en c = None then [a]
         else if fput_object_raises en (c + 1) = None then [a, RetryWarning 1 f, Sleep 1, a]
         else if fput_object_raises en (c + 2) = None
         then [a, RetryWarning 1 f, Sleep 1, a, RetryWarning 2 f, Sleep 1, a]
         else [a, RetryWarning 1 f, Sleep 1, a, RetryWarning 2 f, Sleep 1, a, UploadError f])
      \<and> fput_calls (snd r) \<le> c + 3
      \<and> file_count (fst r) = file_count st + 1
      \<and> (error_count (fst r), upload_count (fst r)) =
          (if fput_object_raises en c \<noteq> None \<and> fput_object_raises en (c + 1) \<noteq> None
              \<and> fput_object_raises en (c + 2) \<noteq> None
           then (error_count st + 1, upload_count st)
           else (error_count st, upload_count st + 1))
      \<and> file_count (fst b) = file_count st + length files
      \<and> upload_count (fst b) + error_count (fst b)
          = upload_count st + error_count st + length files
      \<and> upload_files en pfx out [] (st, w) = (st, w)
      \<and> (\<forall>x. upload_files en pfx out (files @ [x]) (st, w) = upload_file en pfx out b x)
      \<and> (\<forall>n. upload_files_console (working_console en) n pfx out files (st, w) = b)
      \<and> take (length (trace w)) (trace (snd b)) = trace w
      \<and> (\<forall>df \<in> set files.
            FPut (pfx @ ''/'' @ replace_char (CHR 0x5C) (CHR ''/'')
                    (relpath (path_join (fst df) (snd df)) out))
                 (path_join (fst df) (snd df))
            \<in> set (drop (length (trace w)) (trace (snd b))))
      \<and> c + length files \<le> fput_calls (snd b)
      \<and> fput_calls (snd b) \<le> c + 3 * length files"
proof -
  have t: "trace (snd (upload_file en pfx out (st, w) (d, f))) = trace w @
        (if fput_object_raises en (fput_calls w) = None
         then [FPut (pfx @ ''/'' @ replace_char (CHR 0x5C) (CHR ''/'')
                       (relpath (path_join d f) out)) (path_join d f)]
         else if fput_object_raises en (fput_calls w + 1) = None
         then [FPut (pfx @ ''/'' @ replace_char (CHR 0x5C) (CHR ''/'')
                       (relpath (path_join d f) out)) (path_join d f),
               RetryWarning 1 f, Sleep 1,
               FPut (pfx @ ''/'' @ replace_char (CHR 0x5C) (CHR ''/'')
                       (relpath (path_join d f) out)) (path_join d f)]
         else if fput_object_raises en (fput_calls w + 2) = None
         then [FPut (pfx @ ''/'' @ replace_char (CHR 0x5C) (CHR ''/'')
                       (relpath (path_join d f) out)) (path_join d f),
               RetryWarning 1 f, Sleep 1,
               FPut (pfx @ ''/'' @ replace_char (CHR 0x5C) (CHR ''/'')
                       (relpath (path_join d f) out)) (path_join d f),
               RetryWarning 2 f, Sleep 1,
               FPut (pfx @ ''/'' @ replace_char (CHR 0x5C) (CHR ''/'')
                       (relpath (path_join d f) out)) (path_join d f)]
         else [FPut (pfx @ ''/'' @ replace_char (CHR 0x5C) (CHR ''/'')
                       (relpath (path_join d f) out)) (path_join d f),
               RetryWarning 1 f, Sleep 1,
               FPut (pfx @ ''/'' @ replace_char (CHR 0x5C) (CHR ''/'')
                       (relpath (path_join d f) out)) (path_join d f),
               RetryWarning 2 f, Sleep 1,
               FPut (pfx @ ''/'' @ replace_char (CHR 0x5C) (CHR ''/'')
                       (relpath (path_join d f) out)) (path_join d f),
               UploadError f])"
    using upload_file_trace[of en pfx out st w d f] by (simp add: Let_def)
  note c = upload_file_counts[where en = en and pfx = pfx and out = out and st = st and w = w
             and d = d and f = f]
  note b = upload_files_counts[of en pfx out files "(st, w)"]
  obtain evs where evs:
      "trace (snd (upload_files en pfx out files (st, w))) = trace w @ evs"
      "\<forall>df \<in> set files.
         FPut (pfx @ ''/'' @ replace_char (CHR 0x5C) (CHR ''/'')
                 (relpath (path_join (fst df) (snd df)) out))
              (path_join (fst df) (snd df)) \<in> set evs"
    using upload_files_attempts[of en pfx out files "(st, w)"] by auto
  note k = upload_files_calls[of "(st, w)" files en pfx out]
  have b1: "file_count (fst (upload_files en pfx out files (st, w)))
            = file_count st + length files"
    using b by simp
  have b2: "upload_count (fst (upload_files en pfx out files (st, w)))
            + error_count (fst (upload_files en pfx out files (st, w)))
            = upload_count st + error_count st + length files"
    using b by simp
  have b3: "upload_files en pfx out [] (st, w) = (st, w)"
    by (simp add: upload_files_def)
  have b4: "\<forall>x. upload_files en pfx out (files @ [x]) (st, w)
                = upload_file en pfx out (upload_files en pfx out files (st, w)) x"
    by (simp add: upload_files_snoc)
  have b4c: "\<forall>n. upload_files_console (working_console en) n pfx out files (st, w)
                 = upload_files en pfx out files (st, w)"
    by (simp add: upload_files_working_console)
  have b5: "take (length (trace w)) (trace (snd (upload_files en pfx out files (st, w))))
            = trace w"
    by (simp add: evs(1))
  have b6: "\<forall>df \<in> set files.
         FPut (pfx @ ''/'' @ replace_char (CHR 0x5C) (CHR ''/'')
                 (relpath (path_join (fst df) (snd df)) out))
              (path_join (fst df) (snd df))
         \<in> set (drop (length (trace w))
                     (trace (snd (upload_files en pfx out files (st, w)))))"
    using evs(2) by (simp add: evs(1))
  have b7: "fput_calls w + length files
            \<le> fput_calls (snd (upload_files en pfx out files (st, w)))"
    using k by simp
  have b8: "fput_calls (snd (upload_files en pfx out files (st, w)))
            \<le> fput_calls w + 3 * length files"
    using k by simp
  show ?thesis
    unfolding Let_def
    by (intro conjI)
       (rule t, rule c(1), rule c(3), rule c(4), rule b1, rule b2, rule b3, rule b4,
        rule b4c, rule b5, rule b6, rule b7, rule b8)
qed

text \<open>A file whose three attempts fail, followed in its batch by a second one.\<close>

theorem upload_retry_policy_witness:
  "trace (snd (upload_file env_fput_fails ''m'' ''output/m'' (no_stats, world0)
                 (''output/m'', ''f0''))) =
     [FPut ''m/f0'' ''output/m/f0'', RetryWarning 1 ''f0'', Sleep 1,
      FPut ''m/f0'' ''output/m/f0'', RetryWarning 2 ''f0'', Sleep 1,
      FPut ''m/f0'' ''output/m/f0'', UploadError ''f0'']
   \<and> error_count (fst (upload_file env_fput_fails ''m'' ''output/m'' (no_stats, world0)
                          (''output/m'', ''f0''))) = 1
   \<and> file_count (fst (upload_files env_fput_fails ''m'' ''output/m''
                         [(''output/m'', ''f0''), (''output/m'', ''f1'')] (no_stats, world0))) = 2
   \<and> FPut ''m/f1'' ''output/m/f1''
       \<in> set (trace (snd (upload_files env_fput_fails ''m'' ''output/m''
                             [(''output/m'', ''f0''), (''output/m'', ''f1'')]
                             (no_stats, world0))))
   \<and> 2 \<le> fput_calls (snd (upload_files env_fput_fails ''m'' ''output/m''
                               [(''output/m'', ''f0''), (''output/m'', ''f1'')]
                               (no_stats, world0)))"
proof -
  have r: "fput_object_raises env_fput_fails n \<noteq> None" for n
    by (simp add: env_fput_fails_def)
  have z: "fput_calls world0 = 0" "trace world0 = []" "error_count no_stats = 0"
    "file_count no_stats = 0"
    by (simp_all add: world0_def no_stats_def)
  note t = upload_retry_policy[where w = world0 and en = env_fput_fails and pfx = "''m''"
             and out = "''output/m''" and st = no_stats and d = "''output/m''" and f = "''f0''"
             and files = "[(''output/m'', ''f0''), (''output/m'', ''f1'')]",
             unfolded Let_def]
  have a: "trace (snd (upload_file env_fput_fails ''m'' ''output/m'' (no_stats, world0)
                 (''output/m'', ''f0''))) =
     [FPut ''m/f0'' ''output/m/f0'', RetryWarning 1 ''f0'', Sleep 1,
      FPut ''m/f0'' ''output/m/f0'', RetryWarning 2 ''f0'', Sleep 1,
      FPut ''m/f0'' ''output/m/f0'', UploadError ''f0'']"
    using conjunct1[OF t] r z by (simp add: path_join_def relpath_def replace_char_def)
  have b: "error_count (fst (upload_file env_fput_fails ''m'' ''output/m'' (no_stats, world0)
                          (''output/m'', ''f0''))) = 1"
    using conjunct1[OF conjunct2[OF conjunct2[OF conjunct2[OF t]]]] r z by simp
  have c: "file_count (fst (upload_files env_fput_fails ''m'' ''output/m''
                         [(''output/m'', ''f0''), (''output/m'', ''f1'')] (no_stats, world0))) = 2"
    using conjunct1[OF conjunct2[OF conjunct2[OF conjunct2[OF conjunct2[OF t]]]]] z by simp
  note batch = conjunct2[OF conjunct2[OF conjunct2[OF conjunct2[OF conjunct2[OF
                 conjunct2[OF conjunct2[OF conjunct2[OF conjunct2[OF t]]]]]]]]]
  have "FPut (''m'' @ ''/'' @ replace_char (CHR 0x5C) (CHR ''/'')
                (relpath (path_join (fst (''output/m'', ''f1'')) (snd (''output/m'', ''f1'')))
                   ''output/m''))
             (path_join (fst (''output/m'', ''f1'')) (snd (''output/m'', ''f1'')))
        \<in> set (drop (length (trace world0))
                    (trace (snd (upload_files env_fput_fails ''m'' ''output/m''
                                   [(''output/m'', ''f0''), (''output/m'', ''f1'')]
                                   (no_stats, world0)))))"
    by (rule bspec[OF conjunct1[OF conjunct2[OF batch]]]) simp
  then have d: "FPut ''m/f1'' ''output/m/f1''
       \<in> set (trace (snd (upload_files env_fput_fails ''m'' ''output/m''
                             [(''output/m'', ''f0''), (''output/m'', ''f1'')]
                             (no_stats, world0))))"
    using z(2) by (simp add: path_join_def relpath_def replace_char_def)
  have e: "2 \<le> fput_calls (snd (upload_files env_fput_fails ''m'' ''output/m''
                               [(''output/m'', ''f0''), (''output/m'', ''f1'')]
                               (no_stats, world0)))"
    using conjunct1[OF conjunct2[OF conjunct2[OF batch]]] z(1) by simp
  show ?thesis
    by (intro conjI) (rule a, rule b, rule c, rule d, rule e)
qed

subsection \<open>Upload without a local directory\<close>



subsection \<open>Order of the files of a batch\<close>

text \<open>
  C8, as amended. The files to upload are found by a recursive walk that yields files
  only: every pair of a directory path and a name that the loop visits is a file of the
  tree, and every file of the tree is visited. The files of one directory are visited
  together, in the sorted order of their names; a directory's own files come before those
  of its subdirectories, which follow in the order in which the directory lists them. The
  sequence as a whole is a function of the listed tree and need not be sorted.
\<close>

theorem upload_order:
  assumes "wf_node node"
  shows "(\<forall>df \<in> set (walk_files p node).
            \<exists>cs. fst df = foldl path_join p cs \<and> resolve node (cs @ [snd df]) = Some File)
       \<and> (\<forall>cs f. resolve node (cs @ [f]) = Some File
              \<longrightarrow> (foldl path_join p cs, f) \<in> set (walk_files p node))
       \<and> (\<forall>t \<in> set (os_walk p node).
              \<exists>pre post. walk_files p node
                           = pre @ map (\<lambda>file. (fst t, file)) (sort (snd (snd t))) @ post)
       \<and> (case node of
             File \<Rightarrow> walk_files p node = []
           | Dir es \<Rightarrow>
               walk_files p node =
                 map (\<lambda>file. (p, file)) (sort (map fst (filter (\<lambda>e. \<not> is_dir (snd e)) es)))
                 @ concat (map (\<lambda>e. walk_files (path_join p (fst e)) (snd e)) es))
       \<and> length (walk_files p node) = (if is_dir node then count_files node else 0)"
proof (intro conjI)
  show "\<forall>df \<in> set (walk_files p node).
          \<exists>cs. fst df = foldl path_join p cs \<and> resolve node (cs @ [snd df]) = Some File"
  proof
    fix df assume "df \<in> set (walk_files p node)"
    then have "(fst df, snd df) \<in> set (walk_files p node)" by simp
    from walk_files_are_files[OF assms this]
    show "\<exists>cs. fst df = foldl path_join p cs \<and> resolve node (cs @ [snd df]) = Some File" .
  qed
  show "\<forall>cs f. resolve node (cs @ [f]) = Some File
          \<longrightarrow> (foldl path_join p cs, f) \<in> set (walk_files p node)"
    using files_are_walked by blast
  show "\<forall>t \<in> set (os_walk p node).
          \<exists>pre post. walk_files p node
                       = pre @ map (\<lambda>file. (fst t, file)) (sort (snd (snd t))) @ post"
  proof
    fix t assume "t \<in> set (os_walk p node)"
    then have "(fst t, fst (snd t), snd (snd t)) \<in> set (os_walk p node)" by simp
    from walk_files_block[OF this]
    show "\<exists>pre post. walk_files p node
                       = pre @ map (\<lambda>file. (fst t, file)) (sort (snd (snd t))) @ post" .
  qed
  show "case node of
          File \<Rightarrow> walk_files p node = []
        | Dir es \<Rightarrow>
            walk_files p node =
              map (\<lambda>file. (p, file)) (sort (map fst (filter (\<lambda>e. \<not> is_dir (snd e)) es)))
              @ concat (map (\<lambda>e. walk_files (path_join p (fst e)) (snd e)) es)"
  proof (cases node)
    case File
    then show ?thesis by (simp add: walk_files_def)
  next
    case (Dir es)
    then show ?thesis using walk_files_Dir[of p es] by simp
  qed
  show "length (walk_files p node) = (if is_dir node then count_files node else 0)"
    using walk_files_length[of p node] walk_count[of p node] by simp
qed

theorem upload_order_witness:
  "wf_node nested
   \<and> (''output/m/a'', ''c.log'') \<in> set (walk_files ''output/m'' nested)
   \<and> length (walk_files ''output/m'' nested) = 3"
proof -
  have h: "wf_node nested" by code_simp
  note t = upload_order[OF h, of "''output/m''"]
  have r: "resolve nested ([''a''] @ [''c.log'']) = Some File" by code_simp
  have "(foldl path_join ''output/m'' [''a''], ''c.log'') \<in> set (walk_files ''output/m'' nested)"
    using conjunct1[OF conjunct2[OF t]] r by blast
  then have m: "(''output/m/a'', ''c.log'') \<in> set (walk_files ''output/m'' nested)"
    by (simp add: path_join_def)
  have d: "is_dir nested" "count_files nested = 3" by (simp_all add: nested_def)
  have l: "length (walk_files ''output/m'' nested) = 3"
    using conjunct2[OF conjunct2[OF conjunct2[OF conjunct2[OF t]]]] d by simp
  show ?thesis
    by (intro conjI) (rule h, rule m, rule l)
qed

text \<open>
  The claim as stated fails: for a directory with the file \<open>z.log\<close> and the
  subdirectory \<open>a\<close> with the files \<open>c.log\<close> and \<open>b.log\<close>, the relative paths
  are attempted in an order that is not sorted.
\<close>

theorem upload_order_not_sorted:
  "map (\<lambda>df. relpath (path_join (fst df) (snd df)) ''output/m'') (walk_files ''output/m'' nested)
     = [''z.log'', ''a/b.log'', ''a/c.log'']
   \<and> \<not> sorted [''z.log'', ''a/b.log'', ''a/c.log'']
   \<and> trace (snd (snd (upload_to_minio env_ok ''m'' ''output'' world_nested))) =
       [UploadStart ''m'', BucketExists, MakeBucket,
        FPut ''m/z.log'' ''output/m/z.log'',
        FPut ''m/a/b.log'' ''output/m/a/b.log'',
        FPut ''m/a/c.log'' ''output/m/a/c.log'']"
  by code_simp

subsection \<open>Analytics counters\<close>

text \<open>
  C9, as amended. Recording the counts is best-effort as long as the console can show the
  error message: for every pair of count deltas and every failure of the counter store
  (building the client with a missing configuration, reading the document, inserting or
  updating it), the function prints and logs the error, leaves the stored document as it
  was and returns normally, provided that \<open>print_error\<close> does not raise. An exception
  leaves the function only from the handler, when \<open>print_error\<close> raises there; on a
  console that shows every text the function always returns normally.
\<close>

theorem record_counts_raises_only_from_handler:
  "let r = update_machine_status_counts_console en s f w;
       body = update_machine_status_counts_body_console en s f w
   in (\<forall>x. fst r = Some x \<longrightarrow>
         (\<exists>e. fst body = Some e \<and> print_raises en PrintError (AnalyticsFailed e) = Some x))
      \<and> ((\<forall>e. print_raises en PrintError (AnalyticsFailed e) = None) \<longrightarrow> fst r = None)
      \<and> (\<forall>e. fst (update_machine_status_counts_body en s f w) = Some e
             \<longrightarrow> print_raises en PrintError (AnalyticsFailed e) = None
             \<longrightarrow> fst r = None \<and> analytics (snd r) = analytics w
                 \<and> trace (snd r) = trace w @ [AnalyticsError])
      \<and> fst (update_machine_status_counts en s f w) = None"
proof -
  have plain: "fst (update_machine_status_counts en s f w) = None"
    by (simp add: update_machine_status_counts_plain split: prod.splits option.splits)
  have unchanged: "fst (update_machine_status_counts_body en s f w) = Some e
                   \<Longrightarrow> snd (update_machine_status_counts_body en s f w) = w" for e
    by (auto simp add: update_machine_status_counts_body_def split: option.splits)
  show ?thesis
    unfolding Let_def
  proof (intro conjI allI impI)
    fix x assume "fst (update_machine_status_counts_console en s f w) = Some x"
    then show "\<exists>e. fst (update_machine_status_counts_body_console en s f w) = Some e
                 \<and> print_raises en PrintError (AnalyticsFailed e) = Some x"
      by (auto simp add: update_machine_status_counts_console_def
          split: prod.splits option.splits)
  next
    assume "\<forall>e. print_raises en PrintError (AnalyticsFailed e) = None"
    then show "fst (update_machine_status_counts_console en s f w) = None"
      by (auto simp add: update_machine_status_counts_console_def
          split: prod.splits option.splits)
  next
    fix e
    assume b: "fst (update_machine_status_counts_body en s f w) = Some e"
      and p: "print_raises en PrintError (AnalyticsFailed e) = None"
    have "update_machine_status_counts_body en s f w = (Some e, w)"
      using b unchanged[OF b] by (simp add: prod_eq_iff)
    then have r: "update_machine_status_counts_console en s f w
                  = (None, log_event AnalyticsError w)"
      using p
      by (simp add: update_machine_status_counts_console_def
          update_machine_status_counts_body_console_def)
    show "fst (update_machine_status_counts_console en s f w) = None"
      and "analytics (snd (update_machine_status_counts_console en s f w)) = analytics w"
      and "trace (snd (update_machine_status_counts_console en s f w))
           = trace w @ [AnalyticsError]"
      by (simp_all add: r)
  next
    show "fst (update_machine_status_counts en s f w) = None" by (rule plain)
  qed
qed

text \<open>A missing configuration on a console that shows the message.\<close>

theorem record_counts_raises_only_from_handler_witness:
  "fst (update_machine_status_counts_body env_no_config 1 2 world0)
     = Some (Exc ''int() argument must be a string'')
   \<and> print_raises env_no_config PrintError
         (AnalyticsFailed (Exc ''int() argument must be a string'')) = None
   \<and> fst (update_machine_status_counts_console env_no_config 1 2 world0) = None
   \<and> analytics (snd (update_machine_status_counts_console env_no_config 1 2 world0)) = None
   \<and> trace (snd (update_machine_status_counts_console env_no_config 1 2 world0))
       = [AnalyticsError]"
proof -
  have b: "fst (update_machine_status_counts_body env_no_config 1 2 world0)
             = Some (Exc ''int() argument must be a string'')"
    by (simp add: update_machine_status_counts_body_def env_no_config_def env_ok_def)
  have p: "print_raises env_no_config PrintError
             (AnalyticsFailed (Exc ''int() argument must be a string'')) = None"
    by (simp add: env_no_config_def env_ok_def)
  have z: "analytics world0 = None" "trace world0 = []" by (simp_all add: world0_def)
  note t = record_counts_raises_only_from_handler[of env_no_config 1 2 world0,
             unfolded Let_def]
  note u = mp[OF mp[OF spec[OF conjunct1[OF conjunct2[OF conjunct2[OF t]]]] b] p]
  have r: "fst (update_machine_status_counts_console env_no_config 1 2 world0) = None"
    by (rule conjunct1[OF u])
  have a: "analytics (snd (update_machine_status_counts_console env_no_config 1 2 world0))
           = None"
    using conjunct1[OF conjunct2[OF u]] z by simp
  have e: "trace (snd (update_machine_status_counts_console env_no_config 1 2 world0))
           = [AnalyticsError]"
    using conjunct2[OF conjunct2[OF u]] z by simp
  show ?thesis
    by (intro conjI) (rule b, rule p, rule r, rule a, rule e)
qed

text \<open>
  The claim as stated fails on a console that cannot show the marks of \<open>print_error\<close>
  and \<open>print_success\<close>. With a missing configuration the handler raises and the
  exception leaves the function. With a counter store that works the document is written,
  the body's \<open>print_success\<close> raises, the handler raises in turn and the exception
  leaves the function as well.
\<close>

theorem record_counts_lets_print_error_out:
  "fst (update_machine_status_counts_body env_narrow_console 1 2 world0)
     = Some (Exc ''int() argument must be a string'')
   \<and> fst (update_machine_status_counts_console env_narrow_console 1 2 world0)
       = Some (Exc ''UnicodeEncodeError'')
   \<and> fst (update_machine_status_counts_body env_narrow_ok 1 2 world0) = None
   \<and> fst (update_machine_status_counts_console env_narrow_ok 1 2 world0)
       = Some (Exc ''UnicodeEncodeError'')
   \<and> analytics (snd (update_machine_status_counts_console env_narrow_ok 1 2 world0))
       = Some (1, 2)"
  by code_simp

subsection \<open>The upload returns a boolean\<close>

text \<open>
  C10, as amended. For every machine name, output root and behaviour of the object store,
  the upload returns \<open>True\<close> or \<open>False\<close> whenever the handler's \<open>print_error\<close> does
  not raise: an exception of the body (from building the client, from a \<open>print\<close>)
  becomes \<open>False\<close>, as does a failure of the bucket check. An exception leaves the
  function only from the outer handler, when \<open>print_error\<close> raises there; on a console
  that shows every text the function always returns a boolean, and it is the function
  that the run calls.
\<close>

theorem upload_raises_only_from_handler:
  "let r = upload_to_minio_console en m base w;
       body = upload_to_minio_body_console en m base w
   in (\<forall>x. fst r = Inl x \<longrightarrow>
         (\<exists>e. fst body = Inl e \<and> print_raises en PrintError (UploadException m e) = Some x))
      \<and> ((\<forall>e. print_raises en PrintError (UploadException m e) = None)
           \<longrightarrow> (\<exists>b. fst r = Inr b))
      \<and> (\<forall>e. fst body = Inl e \<longrightarrow> print_raises en PrintError (UploadException m e) = None
             \<longrightarrow> fst r = Inr False)
      \<and> ((\<forall>k msg. print_raises en k msg = None)
           \<longrightarrow> r = upload_to_minio en m base w)
      \<and> (\<exists>b. fst (upload_to_minio en m base w) = Inr b)
      \<and> (get_minio_client_raises en = None
           \<longrightarrow> fst (ensure_bucket en (log_event (UploadStart m) w)) \<noteq> None
           \<longrightarrow> fst (upload_to_minio en m base w) = Inr False)"
proof -
  have same: "\<forall>k msg. print_raises en k msg = None \<Longrightarrow> working_console en = en"
    by (simp add: working_console_def fun_eq_iff)
  show ?thesis
    unfolding Let_def
  proof (intro conjI allI impI)
    fix x assume "fst (upload_to_minio_console en m base w) = Inl x"
    then show "\<exists>e. fst (upload_to_minio_body_console en m base w) = Inl e
                 \<and> print_raises en PrintError (UploadException m e) = Some x"
      by (auto simp add: upload_to_minio_console_def split: prod.splits sum.splits option.splits)
  next
    assume "\<forall>e. print_raises en PrintError (UploadException m e) = None"
    then show "\<exists>b. fst (upload_to_minio_console en m base w) = Inr b"
      by (auto simp add: upload_to_minio_console_def split: prod.splits sum.splits option.splits)
  next
    fix e
    assume "fst (upload_to_minio_body_console en m base w) = Inl e"
      and "print_raises en PrintError (UploadException m e) = None"
    then show "fst (upload_to_minio_console en m base w) = Inr False"
      by (auto simp add: upload_to_minio_console_def split: prod.splits sum.splits option.splits)
  next
    assume "\<forall>k msg. print_raises en k msg = None"
    then show "upload_to_minio_console en m base w = upload_to_minio en m base w"
      using same by (simp add: upload_to_minio_def)
  next
    show "\<exists>b. fst (upload_to_minio en m base w) = Inr b" by (rule upload_returns)
  next
    assume "get_minio_client_raises en = None"
      and "fst (ensure_bucket en (log_event (UploadStart m) w)) \<noteq> None"
    then show "fst (upload_to_minio en m base w) = Inr False"
      by (auto simp add: upload_to_minio_plain upload_to_minio_body_def Let_def
          split: prod.splits sum.splits option.splits fsnode.splits simp del: os_walk.simps)
  qed
qed

text \<open>An object store that cannot be configured, on a console that shows the message.\<close>

theorem upload_raises_only_from_handler_witness:
  "fst (upload_to_minio_body_console env_no_config ''m'' ''output'' world_ten)
     = Inl (Exc ''invalid endpoint'')
   \<and> print_raises env_no_config PrintError
         (UploadException ''m'' (Exc ''invalid endpoint'')) = None
   \<and> fst (upload_to_minio_console env_no_config ''m'' ''output'' world_ten) = Inr False"
proof -
  have b: "fst (upload_to_minio_body_console env_no_config ''m'' ''output'' world_ten)
             = Inl (Exc ''invalid endpoint'')"
    by (simp add: upload_to_minio_body_console_def env_no_config_def env_ok_def Let_def)
  have p: "print_raises env_no_config PrintError
             (UploadException ''m'' (Exc ''invalid endpoint'')) = None"
    by (simp add: env_no_config_def env_ok_def)
  note t = upload_raises_only_from_handler[of env_no_config "''m''" "''output''" world_ten,
             unfolded Let_def]
  have r: "fst (upload_to_minio_console env_no_config ''m'' ''output'' world_ten) = Inr False"
    by (rule mp[OF mp[OF spec[OF conjunct1[OF conjunct2[OF conjunct2[OF t]]]] b] p])
  show ?thesis
    by (intro conjI) (rule b, rule p, rule r)
qed

text \<open>
  The claim as stated fails. When the client cannot be built, on a console that cannot
  show the mark of \<open>print_error\<close>, the outer handler raises and the exception leaves
  the function. When nothing else fails but the console cannot show the machine name, the
  first \<open>print_step\<close> raises inside the \<open>try\<close>, \<open>print_error\<close> raises again in
  the outer handler, and the exception leaves the function before anything is uploaded.
\<close>

theorem upload_lets_print_error_out:
  "fst (upload_to_minio_body_console env_narrow_console ''m'' ''output'' world_ten)
     = Inl (Exc ''invalid endpoint'')
   \<and> fst (upload_to_minio_console env_narrow_console ''m'' ''output'' world_ten)
       = Inl (Exc ''UnicodeEncodeError'')
   \<and> get_minio_client_raises env_unprintable_name = None
   \<and> fst (upload_to_minio_console env_unprintable_name ''m'' ''output'' world_ten)
       = Inl (Exc ''UnicodeEncodeError'')
   \<and> trace (snd (snd (upload_to_minio_console env_unprintable_name ''m'' ''output''
                          world_ten))) = [UploadStart ''m'']"
  by code_simp

end
